theory Spec2Isabelle
  imports Main "HOL-Library.Sublist"
begin

section \<open>The Smart Study Buddy script (streamlit_app.py)\<close>

text \<open>
  The script is a Streamlit page over a retrieval backend that it imports from the module
  \<^verbatim>\<open>test_core_core\<close>: \<^verbatim>\<open>extract_text\<close>, \<^verbatim>\<open>get_conversational_answer\<close>,
  \<^verbatim>\<open>_store_in_long_term_memory\<close> and the two collection objects \<^verbatim>\<open>doc_collection\<close> and
  \<^verbatim>\<open>chat_collection\<close>. The embedding below follows the script statement by statement.
  The imported names are fields of an environment record, so every theorem about a handler
  holds for every behaviour of the backend, failures included. Mutation of the session
  state, of the two collections and of the temporary directory is explicit state passing;
  a Python exception is a value of type \<open>exn\<close>; the calls made to the backend and the
  widgets written to the page are appended to a chronological log kept in the state.
  Writes to standard output (\<^verbatim>\<open>print\<close>), the page configuration and the fixed text of the
  sidebar are not part of the model.
\<close>

subsection \<open>Data\<close>

text \<open>
  An instance of Python's \<^verbatim>\<open>Exception\<close>, with the text that \<^verbatim>\<open>str(e)\<close> gives. Both handlers
  catch with \<^verbatim>\<open>except Exception as e\<close> and use \<^verbatim>\<open>e\<close> only through an f-string.
\<close>

datatype exn = Exception string

text \<open>A chunk as \<^verbatim>\<open>extract_text\<close> returns it: a dict with keys \<^verbatim>\<open>content\<close> and \<^verbatim>\<open>page_number\<close>.\<close>

record chunk =
  content :: string
  page_number :: int

text \<open>
  A metadata dict of a collection entry maps keys to scalar values; the script writes
  \<^verbatim>\<open>{'page': chunk['page_number']}\<close>.
\<close>

datatype meta_value = IntV int | StrV string

type_synonym metadata = "(string \<times> meta_value) list"

record entry =
  entry_id :: string
  document :: string
  metadata :: metadata

type_synonym collection = "entry list"

text \<open>The filter \<^verbatim>\<open>{"page": {"$gte": 0}}\<close> is \<open>Gte ''page'' 0\<close>.\<close>

datatype where_filter = Gte string int

text \<open>The module-level collections of the backend, shared by all its functions.\<close>

record store =
  doc_collection :: collection
  chat_collection :: collection

text \<open>An element of \<^verbatim>\<open>st.session_state.history\<close>: \<^verbatim>\<open>{"role": ..., "parts": ...}\<close>.\<close>

record turn =
  role :: string
  parts :: string

record source =
  page :: int

text \<open>The dict returned by \<^verbatim>\<open>get_conversational_answer\<close>.\<close>

record answer_result =
  answer :: string
  sources :: "source list"

text \<open>The object returned by \<^verbatim>\<open>st.file_uploader\<close>.\<close>

record upload =
  name :: string
  getvalue :: string

subsection \<open>The log\<close>

datatype call =
    DocDelete where_filter
  | ChatDelete where_filter
  | ExtractText string
  | DocAdd "string list" "metadata list" "string list"
  | GetConversationalAnswer string "turn list"
  | StoreInLongTermMemory string string

datatype widget =
    StHeader string
  | StInfo string
  | StWarning string
  | StError string
  | StSuccess string
  | StChatMessage string string
  | StCaption string

text \<open>
  A backend call is logged when it finishes, with the exception it raised if it raised one.
  The script is sequential and no logged call contains another, so the order of the log is
  the order in which the calls were made.
\<close>

datatype event = Call call "exn option" | Ui widget

subsection \<open>The environment: what the script imports\<close>

text \<open>
  The first six fields are the names imported from \<^verbatim>\<open>test_core_core\<close>. A function of the
  backend may read and write both collections; a method of a collection object acts on its
  own collection. A call that raises may still have changed the collection, so each update
  returns the new contents together with its outcome. \<open>splitext\<close> is \<^verbatim>\<open>os.path.splitext\<close>;
  \<open>named_temporary_file\<close> gives the path that \<^verbatim>\<open>tempfile.NamedTemporaryFile\<close> chooses for a
  suffix in a directory.
\<close>

record env =
  extract_text :: "string \<Rightarrow> (string \<rightharpoonup> string) \<Rightarrow> exn + chunk list"
  get_conversational_answer :: "string \<Rightarrow> turn list \<Rightarrow> store \<Rightarrow> (exn + answer_result) \<times> store"
  store_in_long_term_memory :: "string \<Rightarrow> string \<Rightarrow> store \<Rightarrow> (exn + unit) \<times> store"
  doc_delete :: "where_filter \<Rightarrow> collection \<Rightarrow> (exn + unit) \<times> collection"
  chat_delete :: "where_filter \<Rightarrow> collection \<Rightarrow> (exn + unit) \<times> collection"
  doc_add :: "string list \<Rightarrow> metadata list \<Rightarrow> string list \<Rightarrow> collection \<Rightarrow> (exn + unit) \<times> collection"
  splitext :: "string \<Rightarrow> string \<times> string"
  named_temporary_file :: "string \<Rightarrow> (string \<rightharpoonup> string) \<Rightarrow> string"

subsection \<open>The state\<close>

text \<open>
  \<open>history\<close>, \<open>file_processed\<close> and \<open>file_name\<close> are the three keys of \<^verbatim>\<open>st.session_state\<close>;
  \<open>db\<close> holds the collections; \<open>files\<close> maps the paths that exist to their contents.
\<close>

record state =
  history :: "turn list"
  file_processed :: bool
  file_name :: string
  db :: store
  files :: "string \<rightharpoonup> string"
  trace :: "event list"

definition log :: "event \<Rightarrow> state \<Rightarrow> state" where
  "log ev s = s\<lparr>trace := trace s @ [ev]\<rparr>"

definition outcome :: "exn + 'a \<Rightarrow> exn option" where
  "outcome r = (case r of Inl e \<Rightarrow> Some e | Inr _ \<Rightarrow> None)"

text \<open>What a handler appended to the log, given the states before and after it.\<close>

definition emitted :: "state \<Rightarrow> state \<Rightarrow> event list" where
  "emitted s s' = drop (length (trace s)) (trace s')"

subsection \<open>Python's string operations\<close>

definition digit_char :: "nat \<Rightarrow> char" where
  "digit_char d = ''0123456789'' ! d"

text \<open>\<^verbatim>\<open>str(n)\<close> for a non-negative integer: its decimal digits, most significant first.\<close>

fun str_nat :: "nat \<Rightarrow> string" where
  "str_nat n = (if n < 10 then [digit_char n] else str_nat (n div 10) @ [digit_char (n mod 10)])"

declare str_nat.simps [simp del]

definition str_int :: "int \<Rightarrow> string" where
  "str_int i = (if i < 0 then CHR ''-'' # str_nat (nat (- i)) else str_nat (nat i))"

text \<open>\<^verbatim>\<open>sep.join(xs)\<close>.\<close>

fun join :: "string \<Rightarrow> string list \<Rightarrow> string" where
  "join sep [] = []"
| "join sep [x] = x"
| "join sep (x # y # ys) = x @ sep @ join sep (y # ys)"

text \<open>\<^verbatim>\<open>s.startswith(p)\<close>.\<close>

definition startswith :: "string \<Rightarrow> string \<Rightarrow> bool" where
  "startswith s p = prefix p s"

subsection \<open>The Process Document handler (lines 45 to 94)\<close>

definition page_gte_0 :: where_filter where
  "page_gte_0 = Gte ''page'' 0"

definition documents_to_add :: "chunk list \<Rightarrow> string list" where
  "documents_to_add chunks = map content chunks"

definition metadatas_to_add :: "chunk list \<Rightarrow> metadata list" where
  "metadatas_to_add chunks = map (\<lambda>c. [(''page'', IntV (page_number c))]) chunks"

definition ids_to_add :: "string \<Rightarrow> chunk list \<Rightarrow> string list" where
  "ids_to_add uploaded_name chunks =
     map (\<lambda>i. uploaded_name @ ''_chunk_'' @ str_nat i) [0 ..< length chunks]"

definition no_text_message :: string where
  "no_text_message = ''File processed, but no text was extracted. Please try another file.''"

definition success_message :: "string \<Rightarrow> nat \<Rightarrow> string" where
  "success_message uploaded_name n =
     ''Processed '' @ [CHR 0x27] @ uploaded_name @ [CHR 0x27] @ '' ('' @ str_nat n
       @ '' chunks added). Ready to chat!''"

definition processing_error_message :: "string \<Rightarrow> string" where
  "processing_error_message m = ''An error occurred during processing: '' @ m"

text \<open>
  The body of the \<^verbatim>\<open>try\<close> block (lines 54 to 85). The result is the exception that left the
  block, if one did, and the state at that point: what was done before a raise stays done.
\<close>

definition process_try :: "env \<Rightarrow> upload \<Rightarrow> string \<Rightarrow> state \<Rightarrow> exn option \<times> state" where
  "process_try e uploaded_file filepath s =
     (let (r1, dc) = doc_delete e page_gte_0 (doc_collection (db s));
          s1 = log (Call (DocDelete page_gte_0) (outcome r1)) (s\<lparr>db := (db s)\<lparr>doc_collection := dc\<rparr>\<rparr>)
      in (case r1 of Inl ex \<Rightarrow> (Some ex, s1) | Inr _ \<Rightarrow>
     (let (r2, cc) = chat_delete e page_gte_0 (chat_collection (db s1));
          s2 = log (Call (ChatDelete page_gte_0) (outcome r2)) (s1\<lparr>db := (db s1)\<lparr>chat_collection := cc\<rparr>\<rparr>)
      in (case r2 of Inl ex \<Rightarrow> (Some ex, s2) | Inr _ \<Rightarrow>
     (let s3 = s2\<lparr>history := []\<rparr>;
          r3 = extract_text e filepath (files s3);
          s4 = log (Call (ExtractText filepath) (outcome r3)) s3
      in (case r3 of Inl ex \<Rightarrow> (Some ex, s4) | Inr chunks \<Rightarrow>
        if chunks = [] then (None, log (Ui (StError no_text_message)) s4)
        else
          (let documents = documents_to_add chunks;
               metadatas = metadatas_to_add chunks;
               ids = ids_to_add (name uploaded_file) chunks;
               (r5, dc') = doc_add e documents metadatas ids (doc_collection (db s4));
               s5 = log (Call (DocAdd documents metadatas ids) (outcome r5))
                      (s4\<lparr>db := (db s4)\<lparr>doc_collection := dc'\<rparr>\<rparr>)
           in (case r5 of Inl ex \<Rightarrow> (Some ex, s5) | Inr _ \<Rightarrow>
             (None, log (Ui (StSuccess (success_message (name uploaded_file) (length chunks))))
                      (s5\<lparr>file_processed := True, file_name := name uploaded_file\<rparr>))))))))))"

text \<open>The \<^verbatim>\<open>except Exception as e\<close> clause (lines 87 to 89).\<close>

definition process_except :: "exn option \<times> state \<Rightarrow> state" where
  "process_except rs =
     (case rs of (None, s) \<Rightarrow> s
               | (Some (Exception m), s) \<Rightarrow> log (Ui (StError (processing_error_message m))) s)"

text \<open>The \<^verbatim>\<open>finally\<close> clause (lines 91 to 94).\<close>

definition process_finally :: "string \<Rightarrow> state \<Rightarrow> state" where
  "process_finally filepath s =
     (if files s filepath \<noteq> None then s\<lparr>files := (files s)(filepath := None)\<rparr> else s)"

text \<open>The temporary file of lines 49 to 51: its path, and the state once it is written.\<close>

definition tmp_path :: "env \<Rightarrow> upload \<Rightarrow> state \<Rightarrow> string" where
  "tmp_path e uploaded_file s = named_temporary_file e (snd (splitext e (name uploaded_file))) (files s)"

definition write_tmp_file :: "env \<Rightarrow> upload \<Rightarrow> state \<Rightarrow> state" where
  "write_tmp_file e uploaded_file s =
     s\<lparr>files := (files s)(tmp_path e uploaded_file s \<mapsto> getvalue uploaded_file)\<rparr>"

definition process_document :: "env \<Rightarrow> upload \<Rightarrow> state \<Rightarrow> state" where
  "process_document e uploaded_file s =
     (let filepath = tmp_path e uploaded_file s in
      process_finally filepath
        (process_except (process_try e uploaded_file filepath (write_tmp_file e uploaded_file s))))"

subsection \<open>The chat handler (lines 110 to 147)\<close>

definition error_answer :: "string \<Rightarrow> string" where
  "error_answer m = ''Error generating response: '' @ m"

definition warning_message :: string where
  "warning_message = ''Please upload and process a document first.''"

text \<open>
  The body of the \<^verbatim>\<open>try\<close> block (lines 123 to 132): the exception that left it, or the
  values of \<^verbatim>\<open>answer\<close> and \<^verbatim>\<open>sources\<close> at its end. \<^verbatim>\<open>history[:-1]\<close> is \<open>butlast\<close>.
\<close>

definition ask_try :: "env \<Rightarrow> string \<Rightarrow> state \<Rightarrow> (exn + string \<times> source list) \<times> state" where
  "ask_try e prompt s =
     (let history_for_llm = butlast (history s);
          (r, d) = get_conversational_answer e prompt history_for_llm (db s);
          s1 = log (Call (GetConversationalAnswer prompt history_for_llm) (outcome r)) (s\<lparr>db := d\<rparr>)
      in (case r of Inl ex \<Rightarrow> (Inl ex, s1) | Inr result \<Rightarrow>
        if \<not> startswith (answer result) ''Error'' then
          (let (r2, d2) = store_in_long_term_memory e prompt (answer result) (db s1);
               s2 = log (Call (StoreInLongTermMemory prompt (answer result)) (outcome r2)) (s1\<lparr>db := d2\<rparr>)
           in (case r2 of Inl ex \<Rightarrow> (Inl ex, s2)
                        | Inr _ \<Rightarrow> (Inr (answer result, sources result), s2)))
        else (Inr (answer result, sources result), s1)))"

text \<open>The \<^verbatim>\<open>except Exception as e\<close> clause (lines 134 to 137).\<close>

definition ask_except :: "(exn + string \<times> source list) \<times> state \<Rightarrow> (string \<times> source list) \<times> state" where
  "ask_except rs =
     (case rs of (Inl (Exception m), s) \<Rightarrow> ((error_answer m, []), s)
               | (Inr shown, s) \<Rightarrow> (shown, s))"

text \<open>
  The value of \<^verbatim>\<open>answer\<close> when the \<^verbatim>\<open>try\<close> statement of lines 122 to 137 has ended, for a
  prompt that the handler processes in state \<open>s\<close>: the text that line 141 shows and line
  147 appends.
\<close>

definition answer_text :: "env \<Rightarrow> string \<Rightarrow> state \<Rightarrow> string" where
  "answer_text e prompt s =
     fst (fst (ask_except (ask_try e prompt
       ((log (Ui (StChatMessage ''user'' prompt)) s)
          \<lparr>history := history s @ [\<lparr>role = ''user'', parts = prompt\<rparr>]\<rparr>))))"

definition source_str :: "source list \<Rightarrow> string" where
  "source_str srcs = join '', '' (map (\<lambda>s. ''Page '' @ str_int (page s)) srcs)"

text \<open>
  \<^verbatim>\<open>st.chat_input\<close> gives \<^verbatim>\<open>None\<close> or the submitted text; the walrus test also skips the empty
  string.
\<close>

definition chat_handler :: "env \<Rightarrow> string option \<Rightarrow> state \<Rightarrow> state" where
  "chat_handler e submitted s =
     (case submitted of None \<Rightarrow> s | Some prompt \<Rightarrow>
        if prompt = [] then s
        else if \<not> file_processed s then log (Ui (StWarning warning_message)) s
        else
          (let s1 = log (Ui (StChatMessage ''user'' prompt)) s;
               s2 = s1\<lparr>history := history s1 @ [\<lparr>role = ''user'', parts = prompt\<rparr>]\<rparr>;
               ((answer_text, source_list), s3) = ask_except (ask_try e prompt s2);
               s4 = log (Ui (StChatMessage ''model'' answer_text)) s3;
               s5 = (if source_list \<noteq> []
                     then log (Ui (StCaption (''Sources: '' @ source_str source_list))) s4 else s4)
           in s5\<lparr>history := history s5 @ [\<lparr>role = ''model'', parts = answer_text\<rparr>]\<rparr>))"

subsection \<open>One run of the script\<close>

text \<open>What the widgets return in one run: the uploader, the button and the chat input.\<close>

record inputs =
  uploader :: "upload option"
  process_clicked :: bool
  submitted_prompt :: "string option"

text \<open>Lines 26 to 31: the session state of a new session.\<close>

definition new_session :: "store \<Rightarrow> (string \<rightharpoonup> string) \<Rightarrow> state" where
  "new_session d fs =
     \<lparr>history = [], file_processed = False, file_name = [], db = d, files = fs, trace = []\<rparr>"

text \<open>Lines 43 to 94.\<close>

definition sidebar :: "env \<Rightarrow> inputs \<Rightarrow> state \<Rightarrow> state" where
  "sidebar e inp s =
     (case uploader inp of None \<Rightarrow> s
      | Some f \<Rightarrow> if process_clicked inp then process_document e f s else s)"

text \<open>Lines 97 to 106.\<close>

definition render_chat :: "state \<Rightarrow> state" where
  "render_chat s =
     (let s1 = log (Ui (StHeader (if file_processed s then ''Chat with: '' @ file_name s else ''Chat''))) s;
          s2 = (if \<not> file_processed s1
                then log (Ui (StInfo ''Please upload and process a document in the sidebar to begin.'')) s1
                else s1)
      in foldl (\<lambda>st message. log (Ui (StChatMessage (role message) (parts message))) st) s2 (history s2))"

definition script :: "env \<Rightarrow> inputs \<Rightarrow> state \<Rightarrow> state" where
  "script e inp s = chat_handler e (submitted_prompt inp) (render_chat (sidebar e inp s))"

text \<open>A session: the script runs once for every interaction.\<close>

definition session :: "env \<Rightarrow> inputs list \<Rightarrow> state \<Rightarrow> state" where
  "session e inps s = foldl (\<lambda>st inp. script e inp st) s inps"

subsection \<open>The collections\<close>

text \<open>
  Modelled from the spec: the \<^verbatim>\<open>delete\<close> and \<^verbatim>\<open>add\<close> methods of the collection objects, which
  belong to the backend module and to the vector store behind it and are not in the script.
  The spec's section 4.2 gives \<^verbatim>\<open>clear(predicate)\<close> as deleting all entries matching the
  predicate, with "page >= 0" matching the entries that have such a page field, and \<^verbatim>\<open>add\<close>
  as failing with \<^verbatim>\<open>InvalidBatch\<close> on sequences of different lengths and with \<^verbatim>\<open>DuplicateId\<close>
  on an id that already exists, without a partial write. Section 7 adds \<^verbatim>\<open>StorageError\<close>: the
  store may be unreachable or corrupt, any call of it may then raise, and an add that
  fails so may have written some of its entries.
\<close>

fun matches :: "where_filter \<Rightarrow> metadata \<Rightarrow> bool" where
  "matches (Gte k v) md = (case map_of md k of Some (IntV n) \<Rightarrow> v \<le> n | _ \<Rightarrow> False)"

text \<open>
  Modelled from the spec: the condition of the store at the three calls that the Process
  Document handler makes, missing from the script. \<open>None\<close> is a store that answers; for a
  delete, \<open>Some ex\<close> is the storage error raised; for the add, \<open>Some (ex, k)\<close> is the storage
  error raised after \<open>k\<close> entries were written.
\<close>

record store_faults =
  doc_delete_fault :: "exn option"
  chat_delete_fault :: "exn option"
  doc_add_fault :: "(exn \<times> nat) option"

text \<open>
  Modelled from the spec: \<^verbatim>\<open>delete(where=...)\<close> of a collection object, missing from the script.
  A store that answers deletes the entries that match the filter, and an empty collection
  is no error; a store that fails raises and deletes nothing.
\<close>

definition collection_delete ::
  "exn option \<Rightarrow> where_filter \<Rightarrow> collection \<Rightarrow> (exn + unit) \<times> collection" where
  "collection_delete fault w c =
     (case fault of
        Some ex \<Rightarrow> (Inl ex, c)
      | None \<Rightarrow> (Inr (), filter (\<lambda>x. \<not> matches w (metadata x)) c))"

definition make_entries :: "string list \<Rightarrow> metadata list \<Rightarrow> string list \<Rightarrow> collection" where
  "make_entries documents metadatas ids =
     map (\<lambda>(i, d, m). \<lparr>entry_id = i, document = d, metadata = m\<rparr>) (zip ids (zip documents metadatas))"

text \<open>
  Modelled from the spec: \<^verbatim>\<open>add(documents, metadatas, ids)\<close> of a collection object, missing
  from the script. An id that occurs twice in the batch counts as one that already exists.
\<close>

definition collection_add ::
  "(exn \<times> nat) option \<Rightarrow> string list \<Rightarrow> metadata list \<Rightarrow> string list \<Rightarrow> collection
     \<Rightarrow> (exn + unit) \<times> collection" where
  "collection_add fault documents metadatas ids c =
     (if length documents \<noteq> length ids \<or> length metadatas \<noteq> length ids
      then (Inl (Exception ''InvalidBatch''), c)
      else if \<not> distinct ids \<or> set ids \<inter> set (map entry_id c) \<noteq> {}
      then (Inl (Exception ''DuplicateId''), c)
      else (case fault of
              Some (ex, k) \<Rightarrow> (Inl ex, c @ take k (make_entries documents metadatas ids))
            | None \<Rightarrow> (Inr (), c @ make_entries documents metadatas ids)))"

text \<open>What a delete with the filter \<^verbatim>\<open>{"page": {"$gte": 0}}\<close> that returns leaves of a collection.\<close>

definition survivors :: "collection \<Rightarrow> collection" where
  "survivors c = filter (\<lambda>x. \<not> matches page_gte_0 (metadata x)) c"

text \<open>
  An environment whose two collection objects behave as above for a given condition of
  the store, and the condition of a store that answers every call.
\<close>

definition with_collections :: "store_faults \<Rightarrow> env \<Rightarrow> env" where
  "with_collections f e =
     e\<lparr>doc_delete := collection_delete (doc_delete_fault f),
       chat_delete := collection_delete (chat_delete_fault f),
       doc_add := collection_add (doc_add_fault f)\<rparr>"

definition no_faults :: store_faults where
  "no_faults = \<lparr>doc_delete_fault = None, chat_delete_fault = None, doc_add_fault = None\<rparr>"

subsection \<open>A test double of the backend, and example inputs\<close>

text \<open>
  A backend whose functions give fixed results: extraction gives \<open>x\<close>, the answer function
  gives \<open>a\<close> and leaves the collections alone, and the memory writer gives \<open>w\<close>, appending
  an entry without page metadata to the chat collection when it returns. \<open>stub_env\<close> is
  that backend with the collections modelled above and a store that answers.
\<close>

definition stub_backend :: "(exn + chunk list) \<Rightarrow> (exn + answer_result) \<Rightarrow> (exn + unit) \<Rightarrow> env" where
  "stub_backend x a w =
     \<lparr>extract_text = (\<lambda>path fs. x),
      get_conversational_answer = (\<lambda>question turns d. (a, d)),
      store_in_long_term_memory = (\<lambda>question reply d.
         (w, case w of Inl _ \<Rightarrow> d
             | Inr _ \<Rightarrow> d\<lparr>chat_collection := chat_collection d @
                 [\<lparr>entry_id = ''memory'', document = question @ '' / '' @ reply, metadata = []\<rparr>]\<rparr>)),
      doc_delete = collection_delete None,
      chat_delete = collection_delete None,
      doc_add = collection_add None,
      splitext = (\<lambda>path. (''notes'', ''.txt'')),
      named_temporary_file = (\<lambda>suffix fs. ''/tmp/tmpab12'' @ suffix)\<rparr>"

definition stub_env :: "(exn + chunk list) \<Rightarrow> (exn + answer_result) \<Rightarrow> (exn + unit) \<Rightarrow> env" where
  "stub_env x a w = with_collections no_faults (stub_backend x a w)"

definition notes_txt :: upload where
  "notes_txt = \<lparr>name = ''notes.txt'', getvalue = ''alpha beta gamma''\<rparr>"

definition three_chunks :: "chunk list" where
  "three_chunks =
     [\<lparr>content = ''alpha'', page_number = 1\<rparr>, \<lparr>content = ''beta'', page_number = 2\<rparr>,
      \<lparr>content = ''gamma'', page_number = 3\<rparr>]"

definition example_city :: answer_result where
  "example_city = \<lparr>answer = ''Example City'', sources = [\<lparr>page = 2\<rparr>]\<rparr>"

definition empty_store :: store where
  "empty_store = \<lparr>doc_collection = [], chat_collection = []\<rparr>"

text \<open>The state of a new session after \<^verbatim>\<open>notes.txt\<close> has been processed, and a question.\<close>

definition ingested :: "env \<Rightarrow> state" where
  "ingested e = process_document e notes_txt (new_session empty_store Map.empty)"

definition freedonia :: string where
  "freedonia = ''What is the capital of Freedonia?''"

text \<open>
  A state left by an earlier document and its questions: two chunks of \<^verbatim>\<open>old.txt\<close> in the
  document collection and a memory entry with page 0 in the chat collection. And a store
  whose chat collection cannot be reached.
\<close>

definition old_chunk :: entry where
  "old_chunk = \<lparr>entry_id = ''old.txt_chunk_0'', document = ''omega'', metadata = [(''page'', IntV 1)]\<rparr>"

definition paged_memory :: entry where
  "paged_memory = \<lparr>entry_id = ''memory-1'', document = ''question / reply'', metadata = [(''page'', IntV 0)]\<rparr>"

definition answered :: state where
  "answered =
     \<lparr>history = [\<lparr>role = ''user'', parts = ''question''\<rparr>, \<lparr>role = ''model'', parts = ''reply''\<rparr>],
      file_processed = True, file_name = ''old.txt'',
      db = \<lparr>doc_collection = [old_chunk], chat_collection = [paged_memory]\<rparr>,
      files = Map.empty, trace = []\<rparr>"

definition chat_store_down :: store_faults where
  "chat_store_down =
     \<lparr>doc_delete_fault = None, chat_delete_fault = Some (Exception ''StorageError''),
      doc_add_fault = None\<rparr>"

subsection \<open>Predicates of the properties\<close>

text \<open>A history made of question and answer pairs: a user turn, then a model turn, and so on.\<close>

fun alternates :: "turn list \<Rightarrow> bool" where
  "alternates [] = True"
| "alternates [t] = False"
| "alternates (u # m # rest) = (role u = ''user'' \<and> role m = ''model'' \<and> alternates rest)"

text \<open>A log that holds an add of at least one chunk that returned.\<close>

fun returned_add :: "event \<Rightarrow> bool" where
  "returned_add (Call (DocAdd docs metas ids) None) = (ids \<noteq> [])"
| "returned_add _ = False"

definition has_add :: "event list \<Rightarrow> bool" where
  "has_add evs = list_ex returned_add evs"

text \<open>The invariant of a session: a processed document, and every call of the answer function,
  has an add that returned before it in the log.\<close>

definition gate_inv :: "state \<Rightarrow> bool" where
  "gate_inv s \<longleftrightarrow>
     (file_processed s \<longrightarrow> has_add (trace s))
     \<and> (\<forall>pre q h out post. trace s = pre @ Call (GetConversationalAnswer q h) out # post \<longrightarrow> has_add pre)"

text \<open>A session of two runs: process the upload, then ask.\<close>

definition upload_and_ask :: "inputs list" where
  "upload_and_ask =
     [\<lparr>uploader = Some notes_txt, process_clicked = True, submitted_prompt = None\<rparr>,
      \<lparr>uploader = Some notes_txt, process_clicked = False, submitted_prompt = Some freedonia\<rparr>]"

section \<open>Properties\<close>

subsection \<open>The state after each step\<close>

lemma log_simps [simp]:
  "files (log ev s) = files s" "db (log ev s) = db s" "history (log ev s) = history s"
  "file_processed (log ev s) = file_processed s" "file_name (log ev s) = file_name s"
  "trace (log ev s) = trace s @ [ev]"
  by (simp_all add: log_def)

lemma process_finally_simps [simp]:
  "db (process_finally p s) = db s" "history (process_finally p s) = history s"
  "file_processed (process_finally p s) = file_processed s"
  "file_name (process_finally p s) = file_name s"
  "trace (process_finally p s) = trace s"
  "files (process_finally p s) = (files s)(p := None)"
  by (auto simp add: process_finally_def)

lemma write_tmp_file_simps [simp]:
  "db (write_tmp_file e up s) = db s" "history (write_tmp_file e up s) = history s"
  "file_processed (write_tmp_file e up s) = file_processed s"
  "file_name (write_tmp_file e up s) = file_name s"
  "trace (write_tmp_file e up s) = trace s"
  "files (write_tmp_file e up s) = (files s)(tmp_path e up s \<mapsto> getvalue up)"
  by (simp_all add: write_tmp_file_def)

lemma emitted_append: "trace s' = trace s @ evs \<Longrightarrow> emitted s s' = evs"
  by (simp add: emitted_def)

subsection \<open>The six ways through the Process Document handler\<close>

lemma process_document_doc_delete_raised:
  assumes "doc_delete e page_gte_0 (doc_collection (db s)) = (Inl (Exception m), dc)"
  shows "emitted s (process_document e up s) =
           [Call (DocDelete page_gte_0) (Some (Exception m)), Ui (StError (processing_error_message m))]"
    and "db (process_document e up s) = (db s)\<lparr>doc_collection := dc\<rparr>"
    and "history (process_document e up s) = history s"
    and "file_processed (process_document e up s) = file_processed s"
    and "file_name (process_document e up s) = file_name s"
  using assms by (simp_all add: process_document_def process_try_def process_except_def outcome_def Let_def emitted_append)

lemma process_document_chat_delete_raised:
  assumes "doc_delete e page_gte_0 (doc_collection (db s)) = (Inr u, dc)"
    and "chat_delete e page_gte_0 (chat_collection (db s)) = (Inl (Exception m), cc)"
  shows "emitted s (process_document e up s) =
           [Call (DocDelete page_gte_0) None, Call (ChatDelete page_gte_0) (Some (Exception m)),
            Ui (StError (processing_error_message m))]"
    and "db (process_document e up s) = \<lparr>doc_collection = dc, chat_collection = cc\<rparr>"
    and "history (process_document e up s) = history s"
    and "file_processed (process_document e up s) = file_processed s"
    and "file_name (process_document e up s) = file_name s"
  using assms by (simp_all add: process_document_def process_try_def process_except_def outcome_def Let_def emitted_append)

lemma process_document_extract_raised:
  assumes "doc_delete e page_gte_0 (doc_collection (db s)) = (Inr u, dc)"
    and "chat_delete e page_gte_0 (chat_collection (db s)) = (Inr u', cc)"
    and "extract_text e (tmp_path e up s) ((files s)(tmp_path e up s \<mapsto> getvalue up)) = Inl (Exception m)"
  shows "emitted s (process_document e up s) =
           [Call (DocDelete page_gte_0) None, Call (ChatDelete page_gte_0) None,
            Call (ExtractText (tmp_path e up s)) (Some (Exception m)),
            Ui (StError (processing_error_message m))]"
    and "db (process_document e up s) = \<lparr>doc_collection = dc, chat_collection = cc\<rparr>"
    and "history (process_document e up s) = []"
    and "file_processed (process_document e up s) = file_processed s"
    and "file_name (process_document e up s) = file_name s"
  using assms by (simp_all add: process_document_def process_try_def process_except_def outcome_def Let_def emitted_append)

lemma process_document_no_text:
  assumes "doc_delete e page_gte_0 (doc_collection (db s)) = (Inr u, dc)"
    and "chat_delete e page_gte_0 (chat_collection (db s)) = (Inr u', cc)"
    and "extract_text e (tmp_path e up s) ((files s)(tmp_path e up s \<mapsto> getvalue up)) = Inr []"
  shows "emitted s (process_document e up s) =
           [Call (DocDelete page_gte_0) None, Call (ChatDelete page_gte_0) None,
            Call (ExtractText (tmp_path e up s)) None, Ui (StError no_text_message)]"
    and "db (process_document e up s) = \<lparr>doc_collection = dc, chat_collection = cc\<rparr>"
    and "history (process_document e up s) = []"
    and "file_processed (process_document e up s) = file_processed s"
    and "file_name (process_document e up s) = file_name s"
  using assms by (simp_all add: process_document_def process_try_def process_except_def outcome_def Let_def emitted_append)

lemma process_document_add_raised:
  assumes "doc_delete e page_gte_0 (doc_collection (db s)) = (Inr u, dc)"
    and "chat_delete e page_gte_0 (chat_collection (db s)) = (Inr u', cc)"
    and "extract_text e (tmp_path e up s) ((files s)(tmp_path e up s \<mapsto> getvalue up)) = Inr chunks"
    and "chunks \<noteq> []"
    and "doc_add e (documents_to_add chunks) (metadatas_to_add chunks) (ids_to_add (name up) chunks) dc
           = (Inl (Exception m), dc')"
  shows "emitted s (process_document e up s) =
           [Call (DocDelete page_gte_0) None, Call (ChatDelete page_gte_0) None,
            Call (ExtractText (tmp_path e up s)) None,
            Call (DocAdd (documents_to_add chunks) (metadatas_to_add chunks) (ids_to_add (name up) chunks))
              (Some (Exception m)),
            Ui (StError (processing_error_message m))]"
    and "db (process_document e up s) = \<lparr>doc_collection = dc', chat_collection = cc\<rparr>"
    and "history (process_document e up s) = []"
    and "file_processed (process_document e up s) = file_processed s"
    and "file_name (process_document e up s) = file_name s"
  using assms by (simp_all add: process_document_def process_try_def process_except_def outcome_def Let_def emitted_append)

lemma process_document_added:
  assumes "doc_delete e page_gte_0 (doc_collection (db s)) = (Inr u, dc)"
    and "chat_delete e page_gte_0 (chat_collection (db s)) = (Inr u', cc)"
    and "extract_text e (tmp_path e up s) ((files s)(tmp_path e up s \<mapsto> getvalue up)) = Inr chunks"
    and "chunks \<noteq> []"
    and "doc_add e (documents_to_add chunks) (metadatas_to_add chunks) (ids_to_add (name up) chunks) dc
           = (Inr u'', dc')"
  shows "emitted s (process_document e up s) =
           [Call (DocDelete page_gte_0) None, Call (ChatDelete page_gte_0) None,
            Call (ExtractText (tmp_path e up s)) None,
            Call (DocAdd (documents_to_add chunks) (metadatas_to_add chunks) (ids_to_add (name up) chunks)) None,
            Ui (StSuccess (success_message (name up) (length chunks)))]"
    and "db (process_document e up s) = \<lparr>doc_collection = dc', chat_collection = cc\<rparr>"
    and "history (process_document e up s) = []"
    and "file_processed (process_document e up s) = True"
    and "file_name (process_document e up s) = name up"
  using assms by (simp_all add: process_document_def process_try_def process_except_def outcome_def Let_def emitted_append)

lemma process_document_cases
  [case_names doc_delete_raised chat_delete_raised extract_raised no_text add_raised added]:
  fixes e :: env and up :: upload and s :: state
  obtains
    (doc_delete_raised) m dc where
      "doc_delete e page_gte_0 (doc_collection (db s)) = (Inl (Exception m), dc)"
  | (chat_delete_raised) dc m cc where
      "doc_delete e page_gte_0 (doc_collection (db s)) = (Inr (), dc)"
      "chat_delete e page_gte_0 (chat_collection (db s)) = (Inl (Exception m), cc)"
  | (extract_raised) dc cc m where
      "doc_delete e page_gte_0 (doc_collection (db s)) = (Inr (), dc)"
      "chat_delete e page_gte_0 (chat_collection (db s)) = (Inr (), cc)"
      "extract_text e (tmp_path e up s) ((files s)(tmp_path e up s \<mapsto> getvalue up)) = Inl (Exception m)"
  | (no_text) dc cc where
      "doc_delete e page_gte_0 (doc_collection (db s)) = (Inr (), dc)"
      "chat_delete e page_gte_0 (chat_collection (db s)) = (Inr (), cc)"
      "extract_text e (tmp_path e up s) ((files s)(tmp_path e up s \<mapsto> getvalue up)) = Inr []"
  | (add_raised) dc cc chunks m dc' where
      "doc_delete e page_gte_0 (doc_collection (db s)) = (Inr (), dc)"
      "chat_delete e page_gte_0 (chat_collection (db s)) = (Inr (), cc)"
      "extract_text e (tmp_path e up s) ((files s)(tmp_path e up s \<mapsto> getvalue up)) = Inr chunks"
      "chunks \<noteq> []"
      "doc_add e (documents_to_add chunks) (metadatas_to_add chunks) (ids_to_add (name up) chunks) dc
         = (Inl (Exception m), dc')"
  | (added) dc cc chunks dc' where
      "doc_delete e page_gte_0 (doc_collection (db s)) = (Inr (), dc)"
      "chat_delete e page_gte_0 (chat_collection (db s)) = (Inr (), cc)"
      "extract_text e (tmp_path e up s) ((files s)(tmp_path e up s \<mapsto> getvalue up)) = Inr chunks"
      "chunks \<noteq> []"
      "doc_add e (documents_to_add chunks) (metadatas_to_add chunks) (ids_to_add (name up) chunks) dc
         = (Inr (), dc')"
proof -
  obtain r1 dc where d1: "doc_delete e page_gte_0 (doc_collection (db s)) = (r1, dc)"
    by (cases "doc_delete e page_gte_0 (doc_collection (db s))")
  obtain r2 cc where d2: "chat_delete e page_gte_0 (chat_collection (db s)) = (r2, cc)"
    by (cases "chat_delete e page_gte_0 (chat_collection (db s))")
  define r3 where "r3 = extract_text e (tmp_path e up s) ((files s)(tmp_path e up s \<mapsto> getvalue up))"
  show thesis
  proof (cases r1)
    case (Inl ex)
    then show thesis using d1 doc_delete_raised by (cases ex) simp
  next
    case r1: (Inr u1)
    show thesis
    proof (cases r2)
      case (Inl ex)
      then show thesis using r1 d1 d2 chat_delete_raised by (cases ex) simp
    next
      case r2: (Inr u2)
      show thesis
      proof (cases r3)
        case (Inl ex)
        then show thesis using r1 r2 d1 d2 extract_raised unfolding r3_def by (cases ex) simp
      next
        case r3: (Inr chunks)
        show thesis
        proof (cases "chunks = []")
          case True
          then show thesis using r1 r2 r3 d1 d2 no_text unfolding r3_def by simp
        next
          case False
          obtain r5 dc' where d5: "doc_add e (documents_to_add chunks) (metadatas_to_add chunks)
              (ids_to_add (name up) chunks) dc = (r5, dc')"
            by (cases "doc_add e (documents_to_add chunks) (metadatas_to_add chunks)
              (ids_to_add (name up) chunks) dc")
          show thesis
          proof (cases r5)
            case (Inl ex)
            then show thesis using False r1 r2 r3 d1 d2 d5 add_raised[of dc cc chunks _ dc']
              unfolding r3_def by (cases ex) simp
          next
            case (Inr u5)
            then show thesis using False r1 r2 r3 d1 d2 d5 added[of dc cc chunks dc']
              unfolding r3_def by simp
          qed
        qed
      qed
    qed
  qed
qed

subsection \<open>Decimal numerals and chunk ids\<close>

lemma digit_char_value: "d < 10 \<Longrightarrow> of_char (digit_char d) = 48 + d"
proof -
  assume "d < 10"
  then have "d \<in> {0, 1, 2, 3, 4, 5, 6, 7, 8, 9}" by auto
  then show ?thesis by (auto simp add: digit_char_def)
qed

lemma str_nat_value: "foldl (\<lambda>a c. 10 * a + (of_char c - 48)) 0 (str_nat n) = n"
proof (induction n rule: str_nat.induct)
  case (1 n)
  show ?case
  proof (cases "n < 10")
    case True
    then show ?thesis by (simp add: str_nat.simps[of n] digit_char_value)
  next
    case False
    then have "foldl (\<lambda>a c. 10 * a + (of_char c - 48)) 0 (str_nat (n div 10)) = n div 10"
      using "1.IH" by simp
    then show ?thesis using False by (simp add: str_nat.simps[of n] digit_char_value)
  qed
qed

lemma str_nat_inj: "str_nat a = str_nat b \<Longrightarrow> a = b"
  by (metis str_nat_value)

lemma distinct_ids_to_add: "distinct (ids_to_add f chunks)"
  by (auto simp add: ids_to_add_def distinct_map inj_on_def dest: str_nat_inj)

lemma length_ids_to_add: "length (ids_to_add f chunks) = length chunks"
  by (simp add: ids_to_add_def)

lemma nth_ids_to_add: "i < length chunks \<Longrightarrow> ids_to_add f chunks ! i = f @ ''_chunk_'' @ str_nat i"
  by (simp add: ids_to_add_def)

lemmas process_document_log =
  process_document_doc_delete_raised(1) process_document_chat_delete_raised(1)
  process_document_extract_raised(1) process_document_no_text(1) process_document_add_raised(1)
  process_document_added(1)

subsection \<open>The six ways through the chat handler\<close>

lemma chat_handler_idle:
  assumes "submitted = None \<or> submitted = Some []"
  shows "chat_handler e submitted s = s"
  using assms by (auto simp add: chat_handler_def)

lemma chat_handler_gated:
  assumes "prompt \<noteq> []" and "\<not> file_processed s"
  shows "chat_handler e (Some prompt) s = log (Ui (StWarning warning_message)) s"
  using assms by (simp add: chat_handler_def)

lemma chat_handler_answer_raised:
  assumes "prompt \<noteq> []" and "file_processed s"
    and "get_conversational_answer e prompt (history s) (db s) = (Inl (Exception m), d)"
  shows "emitted s (chat_handler e (Some prompt) s) =
           [Ui (StChatMessage ''user'' prompt),
            Call (GetConversationalAnswer prompt (history s)) (Some (Exception m)),
            Ui (StChatMessage ''model'' (error_answer m))]"
    and "history (chat_handler e (Some prompt) s) =
           history s @ [\<lparr>role = ''user'', parts = prompt\<rparr>, \<lparr>role = ''model'', parts = error_answer m\<rparr>]"
    and "db (chat_handler e (Some prompt) s) = d"
    and "file_processed (chat_handler e (Some prompt) s)"
    and "file_name (chat_handler e (Some prompt) s) = file_name s"
    and "files (chat_handler e (Some prompt) s) = files s"
  using assms by (simp_all add: chat_handler_def ask_try_def ask_except_def outcome_def Let_def emitted_append)

lemma chat_handler_error_answer:
  assumes "prompt \<noteq> []" and "file_processed s"
    and "get_conversational_answer e prompt (history s) (db s) = (Inr result, d)"
    and "startswith (answer result) ''Error''"
  shows "emitted s (chat_handler e (Some prompt) s) =
           [Ui (StChatMessage ''user'' prompt),
            Call (GetConversationalAnswer prompt (history s)) None,
            Ui (StChatMessage ''model'' (answer result))]
           @ (if sources result \<noteq> [] then [Ui (StCaption (''Sources: '' @ source_str (sources result)))] else [])"
    and "history (chat_handler e (Some prompt) s) =
           history s @ [\<lparr>role = ''user'', parts = prompt\<rparr>, \<lparr>role = ''model'', parts = answer result\<rparr>]"
    and "db (chat_handler e (Some prompt) s) = d"
    and "file_processed (chat_handler e (Some prompt) s)"
    and "file_name (chat_handler e (Some prompt) s) = file_name s"
    and "files (chat_handler e (Some prompt) s) = files s"
  using assms by (simp_all add: chat_handler_def ask_try_def ask_except_def outcome_def Let_def emitted_append)

lemma chat_handler_store_raised:
  assumes "prompt \<noteq> []" and "file_processed s"
    and "get_conversational_answer e prompt (history s) (db s) = (Inr result, d)"
    and "\<not> startswith (answer result) ''Error''"
    and "store_in_long_term_memory e prompt (answer result) d = (Inl (Exception m), d')"
  shows "emitted s (chat_handler e (Some prompt) s) =
           [Ui (StChatMessage ''user'' prompt),
            Call (GetConversationalAnswer prompt (history s)) None,
            Call (StoreInLongTermMemory prompt (answer result)) (Some (Exception m)),
            Ui (StChatMessage ''model'' (error_answer m))]"
    and "history (chat_handler e (Some prompt) s) =
           history s @ [\<lparr>role = ''user'', parts = prompt\<rparr>, \<lparr>role = ''model'', parts = error_answer m\<rparr>]"
    and "db (chat_handler e (Some prompt) s) = d'"
    and "file_processed (chat_handler e (Some prompt) s)"
    and "file_name (chat_handler e (Some prompt) s) = file_name s"
    and "files (chat_handler e (Some prompt) s) = files s"
  using assms by (simp_all add: chat_handler_def ask_try_def ask_except_def outcome_def Let_def emitted_append)

lemma chat_handler_stored:
  assumes "prompt \<noteq> []" and "file_processed s"
    and "get_conversational_answer e prompt (history s) (db s) = (Inr result, d)"
    and "\<not> startswith (answer result) ''Error''"
    and "store_in_long_term_memory e prompt (answer result) d = (Inr (), d')"
  shows "emitted s (chat_handler e (Some prompt) s) =
           [Ui (StChatMessage ''user'' prompt),
            Call (GetConversationalAnswer prompt (history s)) None,
            Call (StoreInLongTermMemory prompt (answer result)) None,
            Ui (StChatMessage ''model'' (answer result))]
           @ (if sources result \<noteq> [] then [Ui (StCaption (''Sources: '' @ source_str (sources result)))] else [])"
    and "history (chat_handler e (Some prompt) s) =
           history s @ [\<lparr>role = ''user'', parts = prompt\<rparr>, \<lparr>role = ''model'', parts = answer result\<rparr>]"
    and "db (chat_handler e (Some prompt) s) = d'"
    and "file_processed (chat_handler e (Some prompt) s)"
    and "file_name (chat_handler e (Some prompt) s) = file_name s"
    and "files (chat_handler e (Some prompt) s) = files s"
  using assms by (simp_all add: chat_handler_def ask_try_def ask_except_def outcome_def Let_def emitted_append)

lemma chat_handler_cases [case_names idle gated answer_raised error_answer store_raised stored]:
  fixes e :: env and submitted :: "string option" and s :: state
  obtains
    (idle) "submitted = None \<or> submitted = Some []"
  | (gated) prompt where "submitted = Some prompt" "prompt \<noteq> []" "\<not> file_processed s"
  | (answer_raised) prompt m d where "submitted = Some prompt" "prompt \<noteq> []" "file_processed s"
      "get_conversational_answer e prompt (history s) (db s) = (Inl (Exception m), d)"
  | (error_answer) prompt result d where "submitted = Some prompt" "prompt \<noteq> []" "file_processed s"
      "get_conversational_answer e prompt (history s) (db s) = (Inr result, d)"
      "startswith (answer result) ''Error''"
  | (store_raised) prompt result d m d' where "submitted = Some prompt" "prompt \<noteq> []" "file_processed s"
      "get_conversational_answer e prompt (history s) (db s) = (Inr result, d)"
      "\<not> startswith (answer result) ''Error''"
      "store_in_long_term_memory e prompt (answer result) d = (Inl (Exception m), d')"
  | (stored) prompt result d d' where "submitted = Some prompt" "prompt \<noteq> []" "file_processed s"
      "get_conversational_answer e prompt (history s) (db s) = (Inr result, d)"
      "\<not> startswith (answer result) ''Error''"
      "store_in_long_term_memory e prompt (answer result) d = (Inr (), d')"
proof (cases submitted)
  case None
  then show thesis using idle by simp
next
  case (Some prompt)
  show thesis
  proof (cases "prompt = [] \<or> \<not> file_processed s")
    case True
    then show thesis using Some idle gated by blast
  next
    case ready: False
    obtain r d where g: "get_conversational_answer e prompt (history s) (db s) = (r, d)"
      by (cases "get_conversational_answer e prompt (history s) (db s)")
    show thesis
    proof (cases r)
      case (Inl ex)
      then show thesis using Some ready g answer_raised by (cases ex) simp
    next
      case (Inr result)
      show thesis
      proof (cases "startswith (answer result) ''Error''")
        case True
        then show thesis using Some ready g Inr error_answer by simp
      next
        case False
        obtain r2 d' where w: "store_in_long_term_memory e prompt (answer result) d = (r2, d')"
          by (cases "store_in_long_term_memory e prompt (answer result) d")
        show thesis
        proof (cases r2)
          case (Inl ex)
          then show thesis using Some ready g Inr False w store_raised[of prompt result d _ d']
            by (cases ex) simp
        next
          case r2: (Inr u)
          then show thesis using Some ready g Inr False w stored[of prompt result d d'] by simp
        qed
      qed
    qed
  qed
qed

lemmas chat_handler_log =
  chat_handler_answer_raised(1) chat_handler_error_answer(1) chat_handler_store_raised(1)
  chat_handler_stored(1)

lemmas chat_handler_history =
  chat_handler_answer_raised(2) chat_handler_error_answer(2) chat_handler_store_raised(2)
  chat_handler_stored(2)

lemma emitted_same [simp]: "emitted s s = []"
  by (simp add: emitted_def)

lemma emitted_log [simp]: "emitted s (log ev s) = [ev]"
  by (simp add: emitted_def)

lemma startswith_error_answer: "startswith (error_answer m) ''Error''"
  by (simp add: startswith_def error_answer_def)

subsection \<open>Unfolding the model on concrete inputs\<close>

lemmas run_defs =
  process_document_def process_try_def process_except_def process_finally_def tmp_path_def
  write_tmp_file_def chat_handler_def ask_try_def ask_except_def log_def outcome_def emitted_def
  Let_def page_gte_0_def documents_to_add_def metadatas_to_add_def ids_to_add_def
  success_message_def no_text_message_def processing_error_message_def error_answer_def
  warning_message_def source_str_def startswith_def str_int_def str_nat.simps digit_char_def
  collection_delete_def collection_add_def make_entries_def with_collections_def no_faults_def
  stub_env_def stub_backend_def
  new_session_def empty_store_def notes_txt_def three_chunks_def example_city_def

lemma ingested_stub:
  "ingested (stub_env (Inr three_chunks) a w) =
     \<lparr>history = [], file_processed = True, file_name = ''notes.txt'',
      db = \<lparr>doc_collection =
             [\<lparr>entry_id = ''notes.txt_chunk_0'', document = ''alpha'', metadata = [(''page'', IntV 1)]\<rparr>,
              \<lparr>entry_id = ''notes.txt_chunk_1'', document = ''beta'', metadata = [(''page'', IntV 2)]\<rparr>,
              \<lparr>entry_id = ''notes.txt_chunk_2'', document = ''gamma'', metadata = [(''page'', IntV 3)]\<rparr>],
            chat_collection = []\<rparr>,
      files = Map.empty,
      trace = [Call (DocDelete page_gte_0) None, Call (ChatDelete page_gte_0) None,
               Call (ExtractText ''/tmp/tmpab12.txt'') None,
               Call (DocAdd [''alpha'', ''beta'', ''gamma'']
                      [[(''page'', IntV 1)], [(''page'', IntV 2)], [(''page'', IntV 3)]]
                      [''notes.txt_chunk_0'', ''notes.txt_chunk_1'', ''notes.txt_chunk_2'']) None,
               Ui (StSuccess (success_message ''notes.txt'' 3))]\<rparr>"
  by (simp add: ingested_def run_defs)

subsection \<open>The history of a session\<close>

lemma alternates_append:
  "alternates h \<Longrightarrow> alternates (h @ [\<lparr>role = ''user'', parts = p\<rparr>, \<lparr>role = ''model'', parts = r\<rparr>])"
  by (induction h rule: alternates.induct) simp_all

lemma history_process_document:
  "history (process_document e up s) = history s \<or> history (process_document e up s) = []"
  by (cases rule: process_document_cases[where e=e and s=s and up=up])
    (simp_all add: process_document_doc_delete_raised process_document_chat_delete_raised
      process_document_extract_raised process_document_no_text process_document_add_raised
      process_document_added)

lemma history_foldl_log: "history (foldl (\<lambda>st x. log (f x) st) s xs) = history s"
  by (induction xs arbitrary: s) simp_all

lemma history_render_chat: "history (render_chat s) = history s"
  by (simp add: render_chat_def Let_def history_foldl_log)

lemma chat_handler_appends:
  assumes "prompt \<noteq> []" and "file_processed s"
  shows "\<exists>reply out.
           history (chat_handler e (Some prompt) s) =
             history s @ [\<lparr>role = ''user'', parts = prompt\<rparr>, \<lparr>role = ''model'', parts = reply\<rparr>]
           \<and> Ui (StChatMessage ''model'' reply) \<in> set (emitted s (chat_handler e (Some prompt) s))
           \<and> Call (GetConversationalAnswer prompt (history s)) out
               \<in> set (emitted s (chat_handler e (Some prompt) s))
           \<and> (\<forall>q h out'. Call (GetConversationalAnswer q h) out'
                   \<in> set (emitted s (chat_handler e (Some prompt) s))
                 \<longrightarrow> q = prompt \<and> h = history s \<and> out' = out)"
proof (cases rule: chat_handler_cases[where e=e and s=s and submitted="Some prompt"])
  case idle
  then show ?thesis using assms by simp
next
  case (gated prompt)
  then show ?thesis using assms by simp
next
  case (answer_raised p m d)
  then show ?thesis using chat_handler_answer_raised[of p s e m d] by auto
next
  case (error_answer p result d)
  then show ?thesis using chat_handler_error_answer[of p s e result d] by auto
next
  case (store_raised p result d m d')
  then show ?thesis using chat_handler_store_raised[of p s e result d m d'] by auto
next
  case (stored p result d d')
  then show ?thesis using chat_handler_stored[of p s e result d d'] by auto
qed

lemma alternates_chat_handler:
  assumes "alternates (history s)"
  shows "alternates (history (chat_handler e submitted s))"
proof (cases rule: chat_handler_cases[where e=e and s=s and submitted=submitted])
  case idle
  then show ?thesis using assms chat_handler_idle[of submitted e s] by simp
next
  case (gated prompt)
  then show ?thesis using assms by (simp add: chat_handler_gated)
next
  case (answer_raised p m d)
  then show ?thesis using assms chat_handler_answer_raised[of p s e m d]
    by (simp add: alternates_append)
next
  case (error_answer p result d)
  then show ?thesis using assms chat_handler_error_answer[of p s e result d]
    by (simp add: alternates_append)
next
  case (store_raised p result d m d')
  then show ?thesis using assms chat_handler_store_raised[of p s e result d m d']
    by (simp add: alternates_append)
next
  case (stored p result d d')
  then show ?thesis using assms chat_handler_stored[of p s e result d d']
    by (simp add: alternates_append)
qed

lemma alternates_process_document:
  "alternates (history s) \<Longrightarrow> alternates (history (process_document e up s))"
  using history_process_document[of e up s] by auto

lemma alternates_sidebar: "alternates (history s) \<Longrightarrow> alternates (history (sidebar e inp s))"
  by (simp add: sidebar_def alternates_process_document split: option.splits)

lemma alternates_script: "alternates (history s) \<Longrightarrow> alternates (history (script e inp s))"
  by (simp add: script_def alternates_chat_handler history_render_chat alternates_sidebar)

lemma alternates_session: "alternates (history s) \<Longrightarrow> alternates (history (session e inps s))"
  unfolding session_def
  by (induction inps arbitrary: s) (simp_all add: alternates_script)

subsection \<open>The gate of the chat handler\<close>

lemma has_add_append: "has_add (xs @ ys) = (has_add xs \<or> has_add ys)"
  by (simp add: has_add_def)

lemma trace_process_document:
  "trace (process_document e up s) = trace s @ emitted s (process_document e up s)"
proof -
  have "\<exists>evs. trace (process_document e up s) = trace s @ evs"
    by (simp add: process_document_def process_try_def process_except_def Let_def
        split: prod.splits sum.splits option.splits exn.splits)
  then show ?thesis by (auto simp add: emitted_def)
qed

lemma trace_chat_handler:
  "trace (chat_handler e submitted s) = trace s @ emitted s (chat_handler e submitted s)"
proof (cases rule: chat_handler_cases[where e=e and s=s and submitted=submitted])
  case idle
  then show ?thesis using chat_handler_idle[of submitted e s] by simp
next
  case (gated prompt)
  then show ?thesis by (simp add: chat_handler_gated)
next
  case (answer_raised p m d)
  then show ?thesis
    by (simp add: chat_handler_def ask_try_def ask_except_def outcome_def Let_def emitted_def)
next
  case (error_answer p result d)
  then show ?thesis
    by (simp add: chat_handler_def ask_try_def ask_except_def outcome_def Let_def emitted_def)
next
  case (store_raised p result d m d')
  then show ?thesis
    by (simp add: chat_handler_def ask_try_def ask_except_def outcome_def Let_def emitted_def)
next
  case (stored p result d d')
  then show ?thesis
    by (simp add: chat_handler_def ask_try_def ask_except_def outcome_def Let_def emitted_def)
qed

lemma trace_foldl_log:
  "trace (foldl (\<lambda>st x. log (Ui (f x)) st) s xs) = trace s @ map (\<lambda>x. Ui (f x)) xs"
  by (induction xs arbitrary: s) simp_all

lemma file_processed_foldl_log:
  "file_processed (foldl (\<lambda>st x. log (f x) st) s xs) = file_processed s"
  by (induction xs arbitrary: s) simp_all

lemma render_chat_trace:
  "trace (render_chat s) = trace s @ map Ui
     ([StHeader (if file_processed s then ''Chat with: '' @ file_name s else ''Chat'')]
      @ (if \<not> file_processed s
         then [StInfo ''Please upload and process a document in the sidebar to begin.''] else [])
      @ map (\<lambda>m. StChatMessage (role m) (parts m)) (history s))"
  by (simp add: render_chat_def Let_def trace_foldl_log comp_def)

lemma file_processed_render_chat: "file_processed (render_chat s) = file_processed s"
  by (simp add: render_chat_def Let_def file_processed_foldl_log)

lemma file_processed_chat_handler: "file_processed (chat_handler e submitted s) = file_processed s"
proof (cases rule: chat_handler_cases[where e=e and s=s and submitted=submitted])
  case idle
  then show ?thesis using chat_handler_idle[of submitted e s] by simp
next
  case (gated prompt)
  then show ?thesis by (simp add: chat_handler_gated)
next
  case (answer_raised p m d)
  then show ?thesis using chat_handler_answer_raised(4)[of p s e m d] by simp
next
  case (error_answer p result d)
  then show ?thesis using chat_handler_error_answer(4)[of p s e result d] by simp
next
  case (store_raised p result d m d')
  then show ?thesis using chat_handler_store_raised(4)[of p s e result d m d'] by simp
next
  case (stored p result d d')
  then show ?thesis using chat_handler_stored(4)[of p s e result d d'] by simp
qed

lemma answer_call_gated:
  assumes "Call (GetConversationalAnswer q h) out \<in> set (emitted s (chat_handler e submitted s))"
  shows "file_processed s"
proof (cases rule: chat_handler_cases[where e=e and s=s and submitted=submitted])
  case idle
  then show ?thesis using assms chat_handler_idle[of submitted e s] by simp
next
  case (gated prompt)
  then show ?thesis using assms by (simp add: chat_handler_gated)
qed simp_all

lemma no_answer_call_process_document:
  "Call (GetConversationalAnswer q h) out \<notin> set (emitted s (process_document e up s))"
  by (cases rule: process_document_cases[where e=e and s=s and up=up])
    (simp_all add: process_document_log)

lemma file_processed_process_document:
  assumes "file_processed (process_document e up s)"
  shows "file_processed s \<or> has_add (emitted s (process_document e up s))"
proof (cases rule: process_document_cases[where e=e and s=s and up=up])
  case (added dc cc chunks dc')
  then show ?thesis
    using process_document_added(1)[OF added]
    by (simp add: has_add_def ids_to_add_def)
qed (use assms in \<open>simp_all add: process_document_doc_delete_raised process_document_chat_delete_raised
      process_document_extract_raised process_document_no_text process_document_add_raised\<close>)

lemma gate_inv_step:
  assumes inv: "gate_inv s"
    and ext: "trace s' = trace s @ evs"
    and flag: "file_processed s' \<Longrightarrow> file_processed s \<or> has_add evs"
    and gate: "\<And>q h out. Call (GetConversationalAnswer q h) out \<in> set evs \<Longrightarrow> file_processed s"
  shows "gate_inv s'"
proof -
  have a: "file_processed s' \<longrightarrow> has_add (trace s')"
    using inv flag ext by (auto simp add: gate_inv_def has_add_append)
  have b: "has_add pre" if split: "trace s' = pre @ Call (GetConversationalAnswer q h) out # post"
    for pre q h out post
  proof -
    from split ext have "trace s @ evs = pre @ Call (GetConversationalAnswer q h) out # post"
      by simp
    then obtain us where
      "(trace s = pre @ us \<and> us @ evs = Call (GetConversationalAnswer q h) out # post)
       \<or> (trace s @ us = pre \<and> evs = us @ Call (GetConversationalAnswer q h) out # post)"
      by (auto simp add: append_eq_append_conv2)
    then show ?thesis
    proof
      assume c: "trace s = pre @ us \<and> us @ evs = Call (GetConversationalAnswer q h) out # post"
      show ?thesis
      proof (cases us)
        case Nil
        with c have "Call (GetConversationalAnswer q h) out \<in> set evs" "pre = trace s" by auto
        with gate inv show ?thesis by (auto simp add: gate_inv_def)
      next
        case (Cons u us')
        with c have "trace s = pre @ Call (GetConversationalAnswer q h) out # us'" by simp
        with inv show ?thesis by (auto simp add: gate_inv_def)
      qed
    next
      assume c: "trace s @ us = pre \<and> evs = us @ Call (GetConversationalAnswer q h) out # post"
      then have "Call (GetConversationalAnswer q h) out \<in> set evs" by simp
      with gate inv have "has_add (trace s)" by (auto simp add: gate_inv_def)
      with c show ?thesis by (auto simp add: has_add_append)
    qed
  qed
  from a b show ?thesis unfolding gate_inv_def by blast
qed

lemma gate_inv_process_document: "gate_inv s \<Longrightarrow> gate_inv (process_document e up s)"
  by (rule gate_inv_step[where evs="emitted s (process_document e up s)"])
    (auto simp add: trace_process_document[symmetric] no_answer_call_process_document
      dest: file_processed_process_document)

lemma gate_inv_sidebar: "gate_inv s \<Longrightarrow> gate_inv (sidebar e inp s)"
  by (simp add: sidebar_def gate_inv_process_document split: option.splits)

lemma gate_inv_render_chat: "gate_inv s \<Longrightarrow> gate_inv (render_chat s)"
proof -
  assume inv: "gate_inv s"
  show ?thesis
    by (rule gate_inv_step[OF inv render_chat_trace]) (auto simp add: file_processed_render_chat)
qed

lemma gate_inv_chat_handler: "gate_inv s \<Longrightarrow> gate_inv (chat_handler e submitted s)"
  by (rule gate_inv_step[where evs="emitted s (chat_handler e submitted s)"])
    (auto simp add: trace_chat_handler[symmetric] file_processed_chat_handler
      dest: answer_call_gated)

lemma gate_inv_script: "gate_inv s \<Longrightarrow> gate_inv (script e inp s)"
  by (simp add: script_def gate_inv_chat_handler gate_inv_render_chat gate_inv_sidebar)

lemma gate_inv_session: "gate_inv s \<Longrightarrow> gate_inv (session e inps s)"
  unfolding session_def
  by (induction inps arbitrary: s) (simp_all add: gate_inv_script)

lemma gate_inv_new_session: "gate_inv (new_session d fs)"
  by (simp add: gate_inv_def new_session_def)


subsection \<open>A session of two runs, evaluated\<close>

lemma foldl_log: "foldl (\<lambda>st x. log (f x) st) s xs = s\<lparr>trace := trace s @ map f xs\<rparr>"
  by (induction xs arbitrary: s) (simp_all add: log_def)

lemma render_chat_state:
  "render_chat s = s\<lparr>trace := trace s @ map Ui
     ([StHeader (if file_processed s then ''Chat with: '' @ file_name s else ''Chat'')]
      @ (if \<not> file_processed s
         then [StInfo ''Please upload and process a document in the sidebar to begin.''] else [])
      @ map (\<lambda>m. StChatMessage (role m) (parts m)) (history s))\<rparr>"
  unfolding render_chat_def Let_def foldl_log by (simp add: log_def comp_def)

lemma session_upload_and_ask_trace:
  "trace (session (stub_env (Inr three_chunks) (Inr example_city) (Inr ())) upload_and_ask
        (new_session empty_store Map.empty))
      = [Call (DocDelete page_gte_0) None, Call (ChatDelete page_gte_0) None,
         Call (ExtractText ''/tmp/tmpab12.txt'') None,
         Call (DocAdd [''alpha'', ''beta'', ''gamma'']
                [[(''page'', IntV 1)], [(''page'', IntV 2)], [(''page'', IntV 3)]]
                [''notes.txt_chunk_0'', ''notes.txt_chunk_1'', ''notes.txt_chunk_2'']) None,
         Ui (StSuccess (success_message ''notes.txt'' 3)),
         Ui (StHeader ''Chat with: notes.txt''),
         Ui (StHeader ''Chat with: notes.txt''),
         Ui (StChatMessage ''user'' freedonia)]
        @ Call (GetConversationalAnswer freedonia []) None
        # [Call (StoreInLongTermMemory freedonia ''Example City'') None,
           Ui (StChatMessage ''model'' ''Example City''),
           Ui (StCaption ''Sources: Page 2'')]"
proof -
  let ?e = "stub_env (Inr three_chunks) (Inr example_city) (Inr ())"
  let ?new = "new_session empty_store Map.empty"
  define s1 where "s1 = render_chat (ingested ?e)"
  have run1: "script ?e \<lparr>uploader = Some notes_txt, process_clicked = True, submitted_prompt = None\<rparr> ?new = s1"
    by (simp add: script_def sidebar_def ingested_def s1_def chat_handler_def)
  define s2 where "s2 = render_chat s1"
  have run2: "script ?e \<lparr>uploader = Some notes_txt, process_clicked = False, submitted_prompt = Some freedonia\<rparr> s1
                = chat_handler ?e (Some freedonia) s2"
    by (simp add: script_def sidebar_def s2_def)
  have f1: "file_processed s1" "history s1 = []" "file_name s1 = ''notes.txt''"
    "trace s1 = trace (ingested ?e) @ [Ui (StHeader ''Chat with: notes.txt'')]"
    "db s1 = db (ingested ?e)"
    unfolding s1_def by (simp_all add: render_chat_state ingested_stub)
  have f2: "file_processed s2" "history s2 = []"
    "trace s2 = trace s1 @ [Ui (StHeader ''Chat with: notes.txt'')]"
    "db s2 = db s1"
    unfolding s2_def by (simp_all add: render_chat_state f1)
  have h1: "freedonia \<noteq> []" by (simp add: freedonia_def)
  have h3: "get_conversational_answer ?e freedonia (history s2) (db s2) = (Inr example_city, db s2)"
    by (simp add: stub_env_def stub_backend_def with_collections_def)
  have h4: "\<not> startswith (answer example_city) ''Error''"
    by (simp add: startswith_def example_city_def)
  obtain d' where h5: "store_in_long_term_memory ?e freedonia (answer example_city) (db s2) = (Inr (), d')"
    by (simp add: stub_env_def stub_backend_def with_collections_def)
  have a: "answer example_city = ''Example City''" "sources example_city = [\<lparr>page = 2\<rparr>]"
    by (simp_all add: example_city_def)
  have c: "source_str [\<lparr>page = 2\<rparr>] = ''Page 2''"
    by (simp add: source_str_def str_int_def str_nat.simps digit_char_def)
  have "trace (session ?e upload_and_ask ?new) = trace (chat_handler ?e (Some freedonia) s2)"
    by (simp add: session_def upload_and_ask_def run1 run2)
  also have "\<dots> = trace s2 @ emitted s2 (chat_handler ?e (Some freedonia) s2)"
    by (rule trace_chat_handler)
  finally show ?thesis
    by (simp add: chat_handler_stored(1)[OF h1 f2(1) h3 h4 h5] f1 f2 a c ingested_stub)
qed


subsection \<open>The modelled collections under the Process Document handler\<close>

lemma with_collections_simps [simp]:
  "doc_delete (with_collections f e) = collection_delete (doc_delete_fault f)"
  "chat_delete (with_collections f e) = collection_delete (chat_delete_fault f)"
  "doc_add (with_collections f e) = collection_add (doc_add_fault f)"
  "extract_text (with_collections f e) = extract_text e"
  "get_conversational_answer (with_collections f e) = get_conversational_answer e"
  "store_in_long_term_memory (with_collections f e) = store_in_long_term_memory e"
  by (simp_all add: with_collections_def)

lemma collection_delete_returns: "fst (collection_delete fault w c) = Inr () \<longleftrightarrow> fault = None"
  by (simp add: collection_delete_def split: option.splits)

lemma collection_delete_survivors:
  "collection_delete None page_gte_0 c = (r, c') \<longleftrightarrow> r = Inr () \<and> c' = survivors c"
  by (auto simp add: collection_delete_def survivors_def)

lemma collection_delete_fault: "collection_delete (Some ex) w c = (Inl ex, c)"
  by (simp add: collection_delete_def)

lemma collection_add_result:
  assumes "collection_add fault documents metadatas ids c = (r, c')"
  shows "\<exists>k. c' = c @ take k (make_entries documents metadatas ids)"
proof -
  have "c' = c @ take 0 (make_entries documents metadatas ids)
        \<or> c' = c @ take (length (make_entries documents metadatas ids)) (make_entries documents metadatas ids)
        \<or> (\<exists>ex k. fault = Some (ex, k) \<and> c' = c @ take k (make_entries documents metadatas ids))"
    using assms by (auto simp add: collection_add_def split: if_splits option.splits)
  then show ?thesis by blast
qed

lemma matches_page_gte_0:
  "matches page_gte_0 md \<longleftrightarrow> (\<exists>n. map_of md ''page'' = Some (IntV n) \<and> 0 \<le> n)"
  by (auto simp add: page_gte_0_def split: option.splits meta_value.splits)

lemma collections_process_document:
  assumes "doc_delete_fault f = None" and "chat_delete_fault f = None"
  shows "chat_collection (db (process_document (with_collections f e) up s)) = survivors (chat_collection (db s))
   \<and> (\<exists>added.
         doc_collection (db (process_document (with_collections f e) up s))
           = survivors (doc_collection (db s)) @ added
         \<and> (added = [] \<or>
            (\<exists>chunks k. extract_text e (tmp_path (with_collections f e) up s)
                         ((files s)(tmp_path (with_collections f e) up s \<mapsto> getvalue up)) = Inr chunks
               \<and> added = take k (make_entries (documents_to_add chunks) (metadatas_to_add chunks)
                            (ids_to_add (name up) chunks)))))"
proof (cases rule: process_document_cases[where e="with_collections f e" and s=s and up=up])
  case (doc_delete_raised m dc)
  then show ?thesis using assms by (simp add: collection_delete_survivors)
next
  case (chat_delete_raised dc m cc)
  then show ?thesis using assms by (simp add: collection_delete_survivors)
next
  case (extract_raised dc cc m)
  then show ?thesis
    using assms process_document_extract_raised(2)[OF extract_raised]
    by (simp add: collection_delete_survivors)
next
  case (no_text dc cc)
  then show ?thesis
    using assms process_document_no_text(2)[OF no_text]
    by (simp add: collection_delete_survivors)
next
  case (add_raised dc cc chunks m dc')
  then show ?thesis
    using assms process_document_add_raised(2)[OF add_raised]
      collection_add_result[OF add_raised(5)[simplified]]
    by (auto simp add: collection_delete_survivors)
next
  case (added dc cc chunks dc')
  then show ?thesis
    using assms process_document_added(2)[OF added] collection_add_result[OF added(5)[simplified]]
    by (auto simp add: collection_delete_survivors)
qed

lemma chat_collection_process_document:
  "chat_collection (db (process_document (with_collections no_faults e) up s))
     = survivors (chat_collection (db s))"
  using collections_process_document[of no_faults e up s] by (simp add: no_faults_def)

lemma chat_collection_store_down:
  assumes "doc_delete_fault f = None" and "chat_delete_fault f = Some (Exception m)"
  shows "chat_collection (db (process_document (with_collections f e) up s)) = chat_collection (db s)"
proof -
  have d: "doc_delete (with_collections f e) page_gte_0 (doc_collection (db s))
             = (Inr (), survivors (doc_collection (db s)))"
    using assms(1) by (simp add: collection_delete_survivors)
  have c: "chat_delete (with_collections f e) page_gte_0 (chat_collection (db s))
             = (Inl (Exception m), chat_collection (db s))"
    using assms(2) by (simp add: collection_delete_fault)
  show ?thesis
    using process_document_chat_delete_raised(2)[OF d c] by simp
qed

lemma survivors_unmatched: "x \<in> set (survivors c) \<Longrightarrow> \<not> matches page_gte_0 (metadata x)"
  by (simp add: survivors_def)

lemma session_upload_and_ask_db:
  "db (session (stub_env (Inr three_chunks) (Inr example_city) (Inr ())) upload_and_ask
        (new_session empty_store Map.empty))
   = \<lparr>doc_collection =
        [\<lparr>entry_id = ''notes.txt_chunk_0'', document = ''alpha'', metadata = [(''page'', IntV 1)]\<rparr>,
         \<lparr>entry_id = ''notes.txt_chunk_1'', document = ''beta'', metadata = [(''page'', IntV 2)]\<rparr>,
         \<lparr>entry_id = ''notes.txt_chunk_2'', document = ''gamma'', metadata = [(''page'', IntV 3)]\<rparr>],
      chat_collection =
        [\<lparr>entry_id = ''memory'', document = freedonia @ '' / Example City'', metadata = []\<rparr>]\<rparr>"
proof -
  let ?e = "stub_env (Inr three_chunks) (Inr example_city) (Inr ())"
  let ?new = "new_session empty_store Map.empty"
  define s1 where "s1 = render_chat (ingested ?e)"
  have run1: "script ?e \<lparr>uploader = Some notes_txt, process_clicked = True, submitted_prompt = None\<rparr> ?new = s1"
    by (simp add: script_def sidebar_def ingested_def s1_def chat_handler_def)
  define s2 where "s2 = render_chat s1"
  have run2: "script ?e \<lparr>uploader = Some notes_txt, process_clicked = False, submitted_prompt = Some freedonia\<rparr> s1
                = chat_handler ?e (Some freedonia) s2"
    by (simp add: script_def sidebar_def s2_def)
  have f1: "file_processed s1" "history s1 = []" "db s1 = db (ingested ?e)"
    unfolding s1_def by (simp_all add: render_chat_state ingested_stub)
  have f2: "file_processed s2" "history s2 = []" "db s2 = db s1"
    unfolding s2_def by (simp_all add: render_chat_state f1)
  have h1: "freedonia \<noteq> []" by (simp add: freedonia_def)
  have h3: "get_conversational_answer ?e freedonia (history s2) (db s2) = (Inr example_city, db s2)"
    by (simp add: stub_env_def stub_backend_def with_collections_def)
  have h4: "\<not> startswith (answer example_city) ''Error''"
    by (simp add: startswith_def example_city_def)
  have h5: "store_in_long_term_memory ?e freedonia (answer example_city) (db s2)
      = (Inr (), (db s2)\<lparr>chat_collection := chat_collection (db s2) @
           [\<lparr>entry_id = ''memory'', document = freedonia @ '' / '' @ answer example_city, metadata = []\<rparr>]\<rparr>)"
    by (simp add: stub_env_def stub_backend_def with_collections_def)
  have "db (session ?e upload_and_ask ?new) = db (chat_handler ?e (Some freedonia) s2)"
    by (simp add: session_def upload_and_ask_def run1 run2)
  also have "\<dots> = (db s2)\<lparr>chat_collection := chat_collection (db s2) @
           [\<lparr>entry_id = ''memory'', document = freedonia @ '' / '' @ answer example_city, metadata = []\<rparr>]\<rparr>"
    by (rule chat_handler_stored(3)[OF h1 f2(1) h3 h4 h5])
  also have "answer example_city = ''Example City''"
    by (simp add: example_city_def)
  finally show ?thesis
    by (simp add: f1 f2 ingested_stub)
qed

lemma survivors_memory:
  "survivors [\<lparr>entry_id = ''memory'', document = freedonia @ '' / Example City'', metadata = []\<rparr>]
     = [\<lparr>entry_id = ''memory'', document = freedonia @ '' / Example City'', metadata = []\<rparr>]"
  by (simp add: survivors_def page_gte_0_def)

subsection \<open>The history under the Process Document handler\<close>

lemma history_reset:
  assumes "fst (doc_delete e page_gte_0 (doc_collection (db s))) = Inr ()"
    and "fst (chat_delete e page_gte_0 (chat_collection (db s))) = Inr ()"
  shows "history (process_document e up s) = []"
proof (cases rule: process_document_cases[where e=e and s=s and up=up])
  case (doc_delete_raised m dc)
  then show ?thesis using assms by simp
next
  case (chat_delete_raised dc m cc)
  then show ?thesis using assms by simp
next
  case (extract_raised dc cc m)
  then show ?thesis by (rule process_document_extract_raised(3))
next
  case (no_text dc cc)
  then show ?thesis by (rule process_document_no_text(3))
next
  case (add_raised dc cc chunks m dc')
  then show ?thesis by (rule process_document_add_raised(3))
next
  case (added dc cc chunks dc')
  then show ?thesis by (rule process_document_added(3))
qed

lemma history_kept:
  assumes "\<not> (fst (doc_delete e page_gte_0 (doc_collection (db s))) = Inr ()
              \<and> fst (chat_delete e page_gte_0 (chat_collection (db s))) = Inr ())"
  shows "history (process_document e up s) = history s"
proof (cases rule: process_document_cases[where e=e and s=s and up=up])
  case (doc_delete_raised m dc)
  then show ?thesis by (rule process_document_doc_delete_raised(3))
next
  case (chat_delete_raised dc m cc)
  then show ?thesis by (rule process_document_chat_delete_raised(3))
next
  case (extract_raised dc cc m)
  then show ?thesis using assms by simp
next
  case (no_text dc cc)
  then show ?thesis using assms by simp
next
  case (add_raised dc cc chunks m dc')
  then show ?thesis using assms by simp
next
  case (added dc cc chunks dc')
  then show ?thesis using assms by simp
qed

lemma history_reset_with_collections:
  "history (process_document (with_collections no_faults e) up s) = []"
  by (rule history_reset) (simp_all add: collection_delete_def no_faults_def)

lemma answer_text_shown:
  assumes "prompt \<noteq> []" and "file_processed s"
  shows "history (chat_handler e (Some prompt) s) =
           history s @ [\<lparr>role = ''user'', parts = prompt\<rparr>,
                        \<lparr>role = ''model'', parts = answer_text e prompt s\<rparr>]"
    and "Ui (StChatMessage ''model'' (answer_text e prompt s))
           \<in> set (emitted s (chat_handler e (Some prompt) s))"
proof -
  obtain a srcs s3 where r: "ask_except (ask_try e prompt
       ((log (Ui (StChatMessage ''user'' prompt)) s)
          \<lparr>history := history s @ [\<lparr>role = ''user'', parts = prompt\<rparr>]\<rparr>)) = ((a, srcs), s3)"
    by (metis prod.exhaust)
  have t: "answer_text e prompt s = a"
    by (simp add: answer_text_def r)
  from chat_handler_appends[OF assms, of e] obtain reply where
    h: "history (chat_handler e (Some prompt) s) =
          history s @ [\<lparr>role = ''user'', parts = prompt\<rparr>, \<lparr>role = ''model'', parts = reply\<rparr>]"
    and u: "Ui (StChatMessage ''model'' reply) \<in> set (emitted s (chat_handler e (Some prompt) s))"
    by blast
  have "history (chat_handler e (Some prompt) s) = history s3 @ [\<lparr>role = ''model'', parts = a\<rparr>]"
    using assms r by (simp add: chat_handler_def Let_def)
  with h have "reply = a" by simp
  with h u t show "history (chat_handler e (Some prompt) s) =
           history s @ [\<lparr>role = ''user'', parts = prompt\<rparr>,
                        \<lparr>role = ''model'', parts = answer_text e prompt s\<rparr>]"
    and "Ui (StChatMessage ''model'' (answer_text e prompt s))
           \<in> set (emitted s (chat_handler e (Some prompt) s))"
    by simp_all
qed

lemma answer_text_returned:
  assumes "get_conversational_answer e prompt (history s) (db s) = (Inr result, d)"
    and "startswith (answer result) ''Error''
         \<or> fst (store_in_long_term_memory e prompt (answer result) d) = Inr ()"
  shows "answer_text e prompt s = answer result"
  using assms
  by (auto simp add: answer_text_def ask_try_def ask_except_def Let_def split: prod.splits sum.splits)

lemma answer_text_raised:
  assumes "get_conversational_answer e prompt (history s) (db s) = (Inl (Exception m), d)"
  shows "answer_text e prompt s = error_answer m"
  using assms
  by (simp add: answer_text_def ask_try_def ask_except_def Let_def)

lemma session_upload_and_ask_history:
  "history (session (stub_env (Inr three_chunks) (Inr example_city) (Inr ())) upload_and_ask
        (new_session empty_store Map.empty))
   = [\<lparr>role = ''user'', parts = freedonia\<rparr>, \<lparr>role = ''model'', parts = ''Example City''\<rparr>]"
proof -
  let ?e = "stub_env (Inr three_chunks) (Inr example_city) (Inr ())"
  let ?new = "new_session empty_store Map.empty"
  define s1 where "s1 = render_chat (ingested ?e)"
  have run1: "script ?e \<lparr>uploader = Some notes_txt, process_clicked = True, submitted_prompt = None\<rparr> ?new = s1"
    by (simp add: script_def sidebar_def ingested_def s1_def chat_handler_def)
  define s2 where "s2 = render_chat s1"
  have run2: "script ?e \<lparr>uploader = Some notes_txt, process_clicked = False, submitted_prompt = Some freedonia\<rparr> s1
                = chat_handler ?e (Some freedonia) s2"
    by (simp add: script_def sidebar_def s2_def)
  have f1: "file_processed s1" "history s1 = []"
    unfolding s1_def by (simp_all add: render_chat_state ingested_stub)
  have f2: "file_processed s2" "history s2 = []"
    unfolding s2_def by (simp_all add: render_chat_state f1)
  have h1: "freedonia \<noteq> []" by (simp add: freedonia_def)
  have h3: "get_conversational_answer ?e freedonia (history s2) (db s2) = (Inr example_city, db s2)"
    by (simp add: stub_env_def stub_backend_def with_collections_def)
  have h4: "\<not> startswith (answer example_city) ''Error''"
    by (simp add: startswith_def example_city_def)
  obtain d' where h5: "store_in_long_term_memory ?e freedonia (answer example_city) (db s2) = (Inr (), d')"
    by (simp add: stub_env_def stub_backend_def with_collections_def)
  have "history (session ?e upload_and_ask ?new) = history (chat_handler ?e (Some freedonia) s2)"
    by (simp add: session_def upload_and_ask_def run1 run2)
  also have "\<dots> = history s2 @ [\<lparr>role = ''user'', parts = freedonia\<rparr>,
                                  \<lparr>role = ''model'', parts = answer example_city\<rparr>]"
    by (rule chat_handler_stored(2)[OF h1 f2(1) h3 h4 h5])
  also have "answer example_city = ''Example City''"
    by (simp add: example_city_def)
  finally show ?thesis by (simp add: f2)
qed

section \<open>The claims\<close>

subsection \<open>Order of the clears and the add\<close>

text \<open>
  C5: in every run of the Process Document handler, the delete on the document collection
  and the delete on the chat-memory collection are both executed, and both return, before
  any add to the document collection: whatever precedes an add in the log of the run is
  exactly the two deletes, in that order and neither raising, followed by the extraction;
  and the add acts on the document collection as its delete left it.
\<close>

theorem deletes_before_add:
  assumes "emitted s (process_document e up s) = pre @ Call (DocAdd docs metas ids) out # post"
  shows "pre = [Call (DocDelete page_gte_0) None, Call (ChatDelete page_gte_0) None,
                Call (ExtractText (tmp_path e up s)) None]
         \<and> (\<exists>dc cc. doc_delete e page_gte_0 (doc_collection (db s)) = (Inr (), dc)
               \<and> chat_delete e page_gte_0 (chat_collection (db s)) = (Inr (), cc)
               \<and> out = outcome (fst (doc_add e docs metas ids dc)))"
  using assms
  by (cases rule: process_document_cases[where e=e and s=s and up=up])
     (auto simp add: process_document_log Cons_eq_append_conv outcome_def)

theorem deletes_before_add_witness:
  "emitted (new_session empty_store Map.empty)
     (process_document (stub_env (Inr three_chunks) (Inr example_city) (Inr ())) notes_txt
        (new_session empty_store Map.empty))
   = [Call (DocDelete page_gte_0) None, Call (ChatDelete page_gte_0) None,
      Call (ExtractText ''/tmp/tmpab12.txt'') None]
     @ Call (DocAdd [''alpha'', ''beta'', ''gamma'']
               [[(''page'', IntV 1)], [(''page'', IntV 2)], [(''page'', IntV 3)]]
               [''notes.txt_chunk_0'', ''notes.txt_chunk_1'', ''notes.txt_chunk_2'']) None
     # [Ui (StSuccess (success_message ''notes.txt'' 3))]
   \<and> tmp_path (stub_env (Inr three_chunks) (Inr example_city) (Inr ())) notes_txt
        (new_session empty_store Map.empty) = ''/tmp/tmpab12.txt''"
proof -
  have h: "emitted (new_session empty_store Map.empty)
     (process_document (stub_env (Inr three_chunks) (Inr example_city) (Inr ())) notes_txt
        (new_session empty_store Map.empty))
   = [Call (DocDelete page_gte_0) None, Call (ChatDelete page_gte_0) None,
      Call (ExtractText ''/tmp/tmpab12.txt'') None]
     @ Call (DocAdd [''alpha'', ''beta'', ''gamma'']
               [[(''page'', IntV 1)], [(''page'', IntV 2)], [(''page'', IntV 3)]]
               [''notes.txt_chunk_0'', ''notes.txt_chunk_1'', ''notes.txt_chunk_2'']) None
     # [Ui (StSuccess (success_message ''notes.txt'' 3))]"
    by (simp add: run_defs)
  from deletes_before_add[OF h] h show ?thesis by simp
qed

subsection \<open>Chunk ids\<close>

text \<open>
  C6: when the Process Document handler calls the add of the document collection for an
  upload named F, extraction has returned some n > 0 chunks and the ids passed are the n
  strings F_chunk_0 to F_chunk_(n-1), the i-th id being F followed by \<^verbatim>\<open>_chunk_\<close> and the
  decimal numeral of i, in the order of the chunks (the documents passed are the chunks'
  contents in the same order); the ids are pairwise distinct.
\<close>

theorem chunk_ids:
  assumes "Call (DocAdd docs metas ids) out \<in> set (emitted s (process_document e up s))"
  shows "\<exists>chunks. extract_text e (tmp_path e up s) ((files s)(tmp_path e up s \<mapsto> getvalue up)) = Inr chunks
           \<and> chunks \<noteq> [] \<and> docs = map content chunks
           \<and> length ids = length chunks
           \<and> (\<forall>i < length chunks. ids ! i = name up @ ''_chunk_'' @ str_nat i)
           \<and> distinct ids"
  using assms
  by (cases rule: process_document_cases[where e=e and s=s and up=up])
     (auto simp add: process_document_log distinct_ids_to_add length_ids_to_add nth_ids_to_add
        documents_to_add_def)

theorem chunk_ids_witness:
  "Call (DocAdd [''alpha'', ''beta'', ''gamma'']
           [[(''page'', IntV 1)], [(''page'', IntV 2)], [(''page'', IntV 3)]]
           [''notes.txt_chunk_0'', ''notes.txt_chunk_1'', ''notes.txt_chunk_2'']) None
     \<in> set (emitted (new_session empty_store Map.empty)
               (process_document (stub_env (Inr three_chunks) (Inr example_city) (Inr ())) notes_txt
                  (new_session empty_store Map.empty)))
   \<and> distinct [''notes.txt_chunk_0'', ''notes.txt_chunk_1'', ''notes.txt_chunk_2'']"
proof -
  have h: "Call (DocAdd [''alpha'', ''beta'', ''gamma'']
           [[(''page'', IntV 1)], [(''page'', IntV 2)], [(''page'', IntV 3)]]
           [''notes.txt_chunk_0'', ''notes.txt_chunk_1'', ''notes.txt_chunk_2'']) None
     \<in> set (emitted (new_session empty_store Map.empty)
               (process_document (stub_env (Inr three_chunks) (Inr example_city) (Inr ())) notes_txt
                  (new_session empty_store Map.empty)))"
    by (simp add: run_defs)
  from chunk_ids[OF h]
  have "distinct [''notes.txt_chunk_0'', ''notes.txt_chunk_1'', ''notes.txt_chunk_2'']"
    by blast
  with h show ?thesis by blast
qed

subsection \<open>Extraction that finds no text\<close>

text \<open>
  C7: when extract_text is called in a run of the Process Document handler and returns
  the empty list, the run shows the error "File processed, but no text was extracted.
  Please try another file." and nothing else; it makes no add to the document collection,
  shows no success message, and leaves \<^verbatim>\<open>file_processed\<close> and \<^verbatim>\<open>file_name\<close> as they were. The
  \<^verbatim>\<open>try\<close> block ends without an exception, so the \<^verbatim>\<open>except\<close> clause is not entered, and the
  message differs from every message that clause can show.
\<close>

theorem empty_extraction_reported:
  assumes "Call (ExtractText (tmp_path e up s)) None \<in> set (emitted s (process_document e up s))"
    and "extract_text e (tmp_path e up s) ((files s)(tmp_path e up s \<mapsto> getvalue up)) = Inr []"
  shows "emitted s (process_document e up s) =
           [Call (DocDelete page_gte_0) None, Call (ChatDelete page_gte_0) None,
            Call (ExtractText (tmp_path e up s)) None, Ui (StError no_text_message)]
         \<and> (\<forall>docs metas ids out. Call (DocAdd docs metas ids) out \<notin> set (emitted s (process_document e up s)))
         \<and> (\<forall>m. Ui (StSuccess m) \<notin> set (emitted s (process_document e up s)))
         \<and> file_processed (process_document e up s) = file_processed s
         \<and> file_name (process_document e up s) = file_name s
         \<and> fst (process_try e up (tmp_path e up s) (write_tmp_file e up s)) = None
         \<and> (\<forall>m. no_text_message \<noteq> processing_error_message m)"
proof -
  have msg: "\<forall>m. no_text_message \<noteq> processing_error_message m"
    by (simp add: no_text_message_def processing_error_message_def)
  show ?thesis
  proof (cases rule: process_document_cases[where e=e and s=s and up=up])
    case (no_text dc cc)
    have "fst (process_try e up (tmp_path e up s) (write_tmp_file e up s)) = None"
      using no_text by (simp add: process_try_def Let_def)
    then show ?thesis
      using msg process_document_no_text[OF no_text] by simp
  next
    case (doc_delete_raised m dc)
    then show ?thesis using assms(1) by (simp add: process_document_log)
  next
    case (chat_delete_raised dc m cc)
    then show ?thesis using assms(1) by (simp add: process_document_log)
  next
    case (extract_raised dc cc m)
    then show ?thesis using assms(2) by simp
  next
    case (add_raised dc cc chunks m dc')
    then show ?thesis using assms(2) by simp
  next
    case (added dc cc chunks dc')
    then show ?thesis using assms(2) by simp
  qed
qed

theorem empty_extraction_reported_witness:
  "emitted (new_session empty_store Map.empty)
     (process_document (stub_env (Inr []) (Inr example_city) (Inr ())) notes_txt
        (new_session empty_store Map.empty))
   = [Call (DocDelete page_gte_0) None, Call (ChatDelete page_gte_0) None,
      Call (ExtractText ''/tmp/tmpab12.txt'') None,
      Ui (StError ''File processed, but no text was extracted. Please try another file.'')]
   \<and> \<not> file_processed (process_document (stub_env (Inr []) (Inr example_city) (Inr ())) notes_txt
        (new_session empty_store Map.empty))"
proof -
  let ?e = "stub_env (Inr []) (Inr example_city) (Inr ())"
  let ?s = "new_session empty_store Map.empty"
  have p: "tmp_path ?e notes_txt ?s = ''/tmp/tmpab12.txt''"
    by (simp add: run_defs)
  have h1: "Call (ExtractText (tmp_path ?e notes_txt ?s)) None \<in> set (emitted ?s (process_document ?e notes_txt ?s))"
    by (simp add: run_defs)
  have h2: "extract_text ?e (tmp_path ?e notes_txt ?s) ((files ?s)(tmp_path ?e notes_txt ?s \<mapsto> getvalue notes_txt)) = Inr []"
    by (simp add: run_defs)
  have "\<not> file_processed ?s" by (simp add: new_session_def)
  with empty_extraction_reported[OF h1 h2] p show ?thesis
    by (simp add: no_text_message_def)
qed

subsection \<open>The temporary file\<close>

text \<open>
  C10: in every run of the Process Document handler, whatever the backend does (the
  deletes, the extraction or the add raising, no text extracted, or success), the
  temporary file that holds the uploaded bytes during the \<^verbatim>\<open>try\<close> block does not exist when
  the handler has finished, and no other file has been created or removed. File-system
  calls themselves are taken to succeed, and the backend not to touch the directory.
\<close>

theorem tmp_file_removed:
  "files (write_tmp_file e up s) (tmp_path e up s) = Some (getvalue up)
   \<and> files (process_document e up s) (tmp_path e up s) = None
   \<and> files (process_document e up s) = (files s)(tmp_path e up s := None)"
  by (cases rule: process_document_cases[where e=e and s=s and up=up])
     (simp_all add: process_document_def process_try_def process_except_def Let_def)

theorem tmp_file_removed_witness:
  "files (process_document (stub_env (Inl (Exception ''corrupt file'')) (Inr example_city) (Inr ()))
            notes_txt (new_session empty_store Map.empty)) ''/tmp/tmpab12.txt'' = None"
proof -
  let ?e = "stub_env (Inl (Exception ''corrupt file'')) (Inr example_city) (Inr ())"
  let ?s = "new_session empty_store Map.empty"
  have p: "tmp_path ?e notes_txt ?s = ''/tmp/tmpab12.txt''"
    by (simp add: run_defs)
  from tmp_file_removed[of ?e notes_txt ?s] p show ?thesis by simp
qed

subsection \<open>A failing answer function\<close>

text \<open>
  C3: when get_conversational_answer raises an exception for a question, the chat handler
  still returns: the \<^verbatim>\<open>except\<close> clause turns the exception into the answer text "Error
  generating response: " followed by the exception's text, which starts with "Error", and
  into the empty list of sources; that text is shown as the model's message, with no
  caption, and is appended to the session history after the user's turn.
\<close>

theorem answer_failure_degraded:
  assumes "prompt \<noteq> []" and "file_processed s"
    and "get_conversational_answer e prompt (history s) (db s) = (Inl (Exception m), d)"
  shows "emitted s (chat_handler e (Some prompt) s) =
           [Ui (StChatMessage ''user'' prompt),
            Call (GetConversationalAnswer prompt (history s)) (Some (Exception m)),
            Ui (StChatMessage ''model'' (error_answer m))]
         \<and> startswith (error_answer m) ''Error''
         \<and> fst (ask_except (ask_try e prompt
                  (log (Ui (StChatMessage ''user'' prompt)) s
                     \<lparr>history := history s @ [\<lparr>role = ''user'', parts = prompt\<rparr>]\<rparr>)))
             = (error_answer m, [])
         \<and> history (chat_handler e (Some prompt) s) =
             history s @ [\<lparr>role = ''user'', parts = prompt\<rparr>, \<lparr>role = ''model'', parts = error_answer m\<rparr>]"
  using assms chat_handler_answer_raised[OF assms]
  by (simp add: startswith_error_answer ask_try_def ask_except_def Let_def)

theorem answer_failure_degraded_witness:
  "emitted (ingested (stub_env (Inr three_chunks) (Inl (Exception ''model timeout'')) (Inr ())))
     (chat_handler (stub_env (Inr three_chunks) (Inl (Exception ''model timeout'')) (Inr ()))
        (Some freedonia)
        (ingested (stub_env (Inr three_chunks) (Inl (Exception ''model timeout'')) (Inr ()))))
   = [Ui (StChatMessage ''user'' freedonia),
      Call (GetConversationalAnswer freedonia []) (Some (Exception ''model timeout'')),
      Ui (StChatMessage ''model'' ''Error generating response: model timeout'')]"
proof -
  let ?e = "stub_env (Inr three_chunks) (Inl (Exception ''model timeout'')) (Inr ())"
  have h1: "freedonia \<noteq> []" by (simp add: freedonia_def)
  have h2: "file_processed (ingested ?e)" by (simp add: ingested_stub)
  have h3: "get_conversational_answer ?e freedonia (history (ingested ?e)) (db (ingested ?e))
              = (Inl (Exception ''model timeout''), db (ingested ?e))"
    by (simp add: stub_env_def stub_backend_def with_collections_def)
  from answer_failure_degraded[OF h1 h2 h3] show ?thesis
    by (simp add: ingested_stub error_answer_def)
qed

subsection \<open>The guard of the memory write\<close>

text \<open>
  C4: for every question for which get_conversational_answer returns a result, the chat
  handler calls _store_in_long_term_memory if and only if the answer text does not start
  with "Error"; a call it makes is the call on the prompt and that answer; and when the
  answer starts with "Error" the collections are left as get_conversational_answer left
  them.
\<close>

theorem memory_write_guard:
  assumes "prompt \<noteq> []" and "file_processed s"
    and "get_conversational_answer e prompt (history s) (db s) = (Inr result, d)"
  shows "((\<exists>out. Call (StoreInLongTermMemory prompt (answer result)) out
              \<in> set (emitted s (chat_handler e (Some prompt) s)))
            \<longleftrightarrow> \<not> startswith (answer result) ''Error'')
         \<and> (\<forall>q a out. Call (StoreInLongTermMemory q a) out \<in> set (emitted s (chat_handler e (Some prompt) s))
               \<longrightarrow> q = prompt \<and> a = answer result \<and> \<not> startswith (answer result) ''Error'')
         \<and> (startswith (answer result) ''Error'' \<longrightarrow> db (chat_handler e (Some prompt) s) = d)"
proof (cases "startswith (answer result) ''Error''")
  case True
  from chat_handler_error_answer[OF assms True] show ?thesis using True by auto
next
  case False
  obtain r2 d' where w: "store_in_long_term_memory e prompt (answer result) d = (r2, d')"
    by (cases "store_in_long_term_memory e prompt (answer result) d")
  show ?thesis
  proof (cases r2)
    case (Inl ex)
    obtain m where "ex = Exception m" by (cases ex)
    with Inl w have "store_in_long_term_memory e prompt (answer result) d = (Inl (Exception m), d')"
      by simp
    from chat_handler_store_raised[OF assms False this] show ?thesis using False by auto
  next
    case (Inr u)
    with w have "store_in_long_term_memory e prompt (answer result) d = (Inr (), d')"
      by simp
    from chat_handler_stored[OF assms False this] show ?thesis using False by auto
  qed
qed


theorem memory_write_guard_witness:
  "(\<exists>out. Call (StoreInLongTermMemory freedonia (answer example_city)) out
       \<in> set (emitted (ingested (stub_env (Inr three_chunks) (Inr example_city) (Inr ())))
            (chat_handler (stub_env (Inr three_chunks) (Inr example_city) (Inr ())) (Some freedonia)
               (ingested (stub_env (Inr three_chunks) (Inr example_city) (Inr ()))))))
   \<and> \<not> startswith (answer example_city) ''Error''"
proof -
  let ?e = "stub_env (Inr three_chunks) (Inr example_city) (Inr ())"
  have h1: "freedonia \<noteq> []" by (simp add: freedonia_def)
  have h2: "file_processed (ingested ?e)" by (simp add: ingested_stub)
  have h3: "get_conversational_answer ?e freedonia (history (ingested ?e)) (db (ingested ?e))
              = (Inr example_city, db (ingested ?e))"
    by (simp add: stub_env_def stub_backend_def with_collections_def)
  have "\<not> startswith (answer example_city) ''Error''"
    by (simp add: startswith_def example_city_def)
  with memory_write_guard[OF h1 h2 h3] show ?thesis by blast
qed

subsection \<open>A failing memory write\<close>

text \<open>
  C2: the claim is that a memory write that raises, after get_conversational_answer has
  returned an answer, leaves the answer and sources shown to the user as they were. The
  call of _store_in_long_term_memory stands inside the same \<^verbatim>\<open>try\<close> block as the call of
  get_conversational_answer, so its exception reaches the \<^verbatim>\<open>except\<close> clause, which replaces
  the answer by an error text and the sources by the empty list. Here the answer function
  returns "Example City" with page 2 as source and the memory write raises: the user is
  shown "Error generating response: storage unavailable" and no sources, and that error
  text is what the history records.
\<close>

theorem memory_write_failure_replaces_answer:
  "get_conversational_answer
      (stub_env (Inr three_chunks) (Inr example_city) (Inl (Exception ''storage unavailable'')))
      freedonia [] (db (ingested (stub_env (Inr three_chunks) (Inr example_city)
         (Inl (Exception ''storage unavailable'')))))
     = (Inr example_city,
        db (ingested (stub_env (Inr three_chunks) (Inr example_city)
         (Inl (Exception ''storage unavailable'')))))
   \<and> emitted
       (ingested (stub_env (Inr three_chunks) (Inr example_city) (Inl (Exception ''storage unavailable''))))
       (chat_handler
          (stub_env (Inr three_chunks) (Inr example_city) (Inl (Exception ''storage unavailable'')))
          (Some freedonia)
          (ingested (stub_env (Inr three_chunks) (Inr example_city) (Inl (Exception ''storage unavailable'')))))
     = [Ui (StChatMessage ''user'' freedonia),
        Call (GetConversationalAnswer freedonia []) None,
        Call (StoreInLongTermMemory freedonia ''Example City'') (Some (Exception ''storage unavailable'')),
        Ui (StChatMessage ''model'' ''Error generating response: storage unavailable'')]
   \<and> history
       (chat_handler
          (stub_env (Inr three_chunks) (Inr example_city) (Inl (Exception ''storage unavailable'')))
          (Some freedonia)
          (ingested (stub_env (Inr three_chunks) (Inr example_city) (Inl (Exception ''storage unavailable'')))))
     = [\<lparr>role = ''user'', parts = freedonia\<rparr>,
        \<lparr>role = ''model'', parts = ''Error generating response: storage unavailable''\<rparr>]"
proof -
  let ?e = "stub_env (Inr three_chunks) (Inr example_city) (Inl (Exception ''storage unavailable''))"
  have h1: "freedonia \<noteq> []" by (simp add: freedonia_def)
  have h2: "file_processed (ingested ?e)" by (simp add: ingested_stub)
  have h: "history (ingested ?e) = []" by (simp add: ingested_stub)
  have h3: "get_conversational_answer ?e freedonia (history (ingested ?e)) (db (ingested ?e))
              = (Inr example_city, db (ingested ?e))"
    by (simp add: stub_env_def stub_backend_def with_collections_def)
  have h4: "\<not> startswith (answer example_city) ''Error''"
    by (simp add: startswith_def example_city_def)
  have h5: "store_in_long_term_memory ?e freedonia (answer example_city) (db (ingested ?e))
              = (Inl (Exception ''storage unavailable''), db (ingested ?e))"
    by (simp add: stub_env_def stub_backend_def with_collections_def)
  have a: "answer example_city = ''Example City''"
    by (simp add: example_city_def)
  have m: "error_answer ''storage unavailable'' = ''Error generating response: storage unavailable''"
    by (simp add: error_answer_def)
  show ?thesis
    using h3 chat_handler_store_raised(1,2)[OF h1 h2 h3 h4 h5]
    by (simp add: h a m)
qed

subsection \<open>The session history\<close>

text \<open>
  C9, as amended: under the chat handler the session history is append-only and strictly
  alternates roles: every processed question (a non-empty prompt, with a document
  processed) appends exactly one entry with role "user" (the prompt) followed by exactly
  one entry with role "model" (the answer text, that is the value of \<^verbatim>\<open>answer\<close> that the
  handler shows: the answer of the result when get_conversational_answer returned and the
  memory write was skipped or returned, the text "Error generating response: ..." when
  answer generation raised an exception), whatever the backend does; and the history
  passed to get_conversational_answer, which is called once, is the sequence of turns
  before the current prompt. The Process Document handler empties the history when both
  of its deletes have returned and otherwise leaves it unchanged. The alternation of
  roles holds in every session that starts new. Over a session the history is not
  append-only: theorem \<open>history_emptied_by_reingestion\<close> below.
\<close>

theorem history_pairs:
  "alternates (history (session e inps (new_session d fs)))
   \<and> prefix (history s) (history (chat_handler e submitted s))
   \<and> (alternates (history s) \<longrightarrow> alternates (history (chat_handler e submitted s)))
   \<and> (prompt \<noteq> [] \<and> file_processed s \<longrightarrow>
        history (chat_handler e (Some prompt) s) =
          history s @ [\<lparr>role = ''user'', parts = prompt\<rparr>,
                       \<lparr>role = ''model'', parts = answer_text e prompt s\<rparr>]
        \<and> Ui (StChatMessage ''model'' (answer_text e prompt s))
             \<in> set (emitted s (chat_handler e (Some prompt) s))
        \<and> (\<exists>out. Call (GetConversationalAnswer prompt (history s)) out
                    \<in> set (emitted s (chat_handler e (Some prompt) s))
               \<and> (\<forall>q h out'. Call (GetConversationalAnswer q h) out'
                       \<in> set (emitted s (chat_handler e (Some prompt) s))
                     \<longrightarrow> q = prompt \<and> h = history s \<and> out' = out)))
   \<and> (\<forall>result db'. get_conversational_answer e prompt (history s) (db s) = (Inr result, db')
          \<and> (startswith (answer result) ''Error''
               \<or> fst (store_in_long_term_memory e prompt (answer result) db') = Inr ())
        \<longrightarrow> answer_text e prompt s = answer result)
   \<and> (\<forall>m db'. get_conversational_answer e prompt (history s) (db s) = (Inl (Exception m), db')
        \<longrightarrow> answer_text e prompt s = error_answer m)
   \<and> (fst (doc_delete e page_gte_0 (doc_collection (db s))) = Inr ()
        \<and> fst (chat_delete e page_gte_0 (chat_collection (db s))) = Inr ()
      \<longrightarrow> history (process_document e up s) = [])
   \<and> (\<not> (fst (doc_delete e page_gte_0 (doc_collection (db s))) = Inr ()
            \<and> fst (chat_delete e page_gte_0 (chat_collection (db s))) = Inr ())
      \<longrightarrow> history (process_document e up s) = history s)"
proof -
  have session: "alternates (history (session e inps (new_session d fs)))"
    by (rule alternates_session) (simp add: new_session_def)
  have grows: "prefix (history s) (history (chat_handler e submitted s))"
  proof (cases rule: chat_handler_cases[where e=e and s=s and submitted=submitted])
    case idle
    then show ?thesis using chat_handler_idle[of submitted e s] by simp
  next
    case (gated p)
    then show ?thesis by (simp add: chat_handler_gated)
  next
    case (answer_raised p m d)
    then show ?thesis using chat_handler_answer_raised(2)[of p s e m d] by simp
  next
    case (error_answer p result d)
    then show ?thesis using chat_handler_error_answer(2)[of p s e result d] by simp
  next
    case (store_raised p result d m d')
    then show ?thesis using chat_handler_store_raised(2)[of p s e result d m d'] by simp
  next
    case (stored p result d d')
    then show ?thesis using chat_handler_stored(2)[of p s e result d d'] by simp
  qed
  have pairs: "alternates (history s) \<longrightarrow> alternates (history (chat_handler e submitted s))"
    using alternates_chat_handler[of s e submitted] by blast
  have question: "prompt \<noteq> [] \<and> file_processed s \<longrightarrow>
        history (chat_handler e (Some prompt) s) =
          history s @ [\<lparr>role = ''user'', parts = prompt\<rparr>,
                       \<lparr>role = ''model'', parts = answer_text e prompt s\<rparr>]
        \<and> Ui (StChatMessage ''model'' (answer_text e prompt s))
             \<in> set (emitted s (chat_handler e (Some prompt) s))
        \<and> (\<exists>out. Call (GetConversationalAnswer prompt (history s)) out
                    \<in> set (emitted s (chat_handler e (Some prompt) s))
               \<and> (\<forall>q h out'. Call (GetConversationalAnswer q h) out'
                       \<in> set (emitted s (chat_handler e (Some prompt) s))
                     \<longrightarrow> q = prompt \<and> h = history s \<and> out' = out))"
    using answer_text_shown[of prompt s e] chat_handler_appends[of prompt s e]
    by blast
  have returned: "\<forall>result db'. get_conversational_answer e prompt (history s) (db s) = (Inr result, db')
          \<and> (startswith (answer result) ''Error''
               \<or> fst (store_in_long_term_memory e prompt (answer result) db') = Inr ())
        \<longrightarrow> answer_text e prompt s = answer result"
    using answer_text_returned[of e prompt s] by blast
  have raised: "\<forall>m db'. get_conversational_answer e prompt (history s) (db s) = (Inl (Exception m), db')
        \<longrightarrow> answer_text e prompt s = error_answer m"
    using answer_text_raised[of e prompt s] by blast
  have reset: "fst (doc_delete e page_gte_0 (doc_collection (db s))) = Inr ()
        \<and> fst (chat_delete e page_gte_0 (chat_collection (db s))) = Inr ()
      \<longrightarrow> history (process_document e up s) = []"
    using history_reset[of e s up] by blast
  have kept: "\<not> (fst (doc_delete e page_gte_0 (doc_collection (db s))) = Inr ()
            \<and> fst (chat_delete e page_gte_0 (chat_collection (db s))) = Inr ())
      \<longrightarrow> history (process_document e up s) = history s"
    using history_kept[of e s up] by blast
  from session grows pairs question returned raised reset kept show ?thesis
    by (intro conjI)
qed

theorem history_pairs_witness:
  "freedonia \<noteq> []
   \<and> file_processed (ingested (stub_env (Inr three_chunks) (Inl (Exception ''model timeout'')) (Inr ())))
   \<and> get_conversational_answer (stub_env (Inr three_chunks) (Inl (Exception ''model timeout'')) (Inr ()))
        freedonia []
        (db (ingested (stub_env (Inr three_chunks) (Inl (Exception ''model timeout'')) (Inr ()))))
      = (Inl (Exception ''model timeout''),
         db (ingested (stub_env (Inr three_chunks) (Inl (Exception ''model timeout'')) (Inr ()))))
   \<and> history (chat_handler (stub_env (Inr three_chunks) (Inl (Exception ''model timeout'')) (Inr ()))
                 (Some freedonia)
                 (ingested (stub_env (Inr three_chunks) (Inl (Exception ''model timeout'')) (Inr ()))))
      = [\<lparr>role = ''user'', parts = freedonia\<rparr>,
         \<lparr>role = ''model'', parts = ''Error generating response: model timeout''\<rparr>]"
proof -
  let ?e = "stub_env (Inr three_chunks) (Inl (Exception ''model timeout'')) (Inr ())"
  have h1: "freedonia \<noteq> []" by (simp add: freedonia_def)
  have h2: "file_processed (ingested ?e)" by (simp add: ingested_stub)
  have h: "history (ingested ?e) = []" by (simp add: ingested_stub)
  have h3: "get_conversational_answer ?e freedonia [] (db (ingested ?e))
              = (Inl (Exception ''model timeout''), db (ingested ?e))"
    by (simp add: stub_env_def stub_backend_def with_collections_def)
  note pairs = history_pairs[where e="?e" and prompt=freedonia and s="ingested ?e"]
  from pairs h1 h2
  have a: "history (chat_handler ?e (Some freedonia) (ingested ?e)) =
          history (ingested ?e) @ [\<lparr>role = ''user'', parts = freedonia\<rparr>,
             \<lparr>role = ''model'', parts = answer_text ?e freedonia (ingested ?e)\<rparr>]"
    by blast
  from pairs h3 h
  have b: "answer_text ?e freedonia (ingested ?e) = error_answer ''model timeout''"
    by metis
  have c: "error_answer ''model timeout'' = ''Error generating response: model timeout''"
    by (simp add: error_answer_def)
  have "history (chat_handler ?e (Some freedonia) (ingested ?e))
      = [\<lparr>role = ''user'', parts = freedonia\<rparr>,
         \<lparr>role = ''model'', parts = ''Error generating response: model timeout''\<rparr>]"
    unfolding a b c h by simp
  with h1 h2 h3 show ?thesis by (intro conjI)
qed

text \<open>
  The counterexample to C9 as stated: after one question the history holds two turns, and
  processing a document again leaves it empty (line 61 of the script).
\<close>

theorem history_emptied_by_reingestion:
  "history (session (stub_env (Inr three_chunks) (Inr example_city) (Inr ())) upload_and_ask
        (new_session empty_store Map.empty))
     = [\<lparr>role = ''user'', parts = freedonia\<rparr>, \<lparr>role = ''model'', parts = ''Example City''\<rparr>]
   \<and> history (process_document (stub_env (Inr three_chunks) (Inr example_city) (Inr ())) notes_txt
        (session (stub_env (Inr three_chunks) (Inr example_city) (Inr ())) upload_and_ask
           (new_session empty_store Map.empty)))
     = []"
proof -
  have "history (process_document (stub_env (Inr three_chunks) (Inr example_city) (Inr ())) notes_txt
        (session (stub_env (Inr three_chunks) (Inr example_city) (Inr ())) upload_and_ask
           (new_session empty_store Map.empty))) = []"
    unfolding stub_env_def by (rule history_reset_with_collections)
  with session_upload_and_ask_history show ?thesis by (intro conjI)
qed

subsection \<open>The gate of the chat input\<close>

text \<open>
  C8: the chat handler calls get_conversational_answer only when \<^verbatim>\<open>file_processed\<close> is true; a
  prompt submitted while it is false produces the warning "Please upload and process a
  document first." and nothing else, no backend call included. The Process Document
  handler turns \<^verbatim>\<open>file_processed\<close> from false to true only in a run whose add to the document
  collection returned, with at least one chunk. A new session starts with the flag false,
  so in every session that starts new, whatever the widgets return in its runs, every
  call of get_conversational_answer in the log has before it an add of at least one
  chunk that returned.
\<close>

theorem chat_gate:
  "(Call (GetConversationalAnswer q h) out \<in> set (emitted s (chat_handler e submitted s))
      \<longrightarrow> file_processed s)
   \<and> (prompt \<noteq> [] \<and> \<not> file_processed s
      \<longrightarrow> chat_handler e (Some prompt) s = log (Ui (StWarning warning_message)) s)
   \<and> (file_processed (process_document e up s) \<and> \<not> file_processed s
      \<longrightarrow> has_add (emitted s (process_document e up s)))
   \<and> \<not> file_processed (new_session d fs)
   \<and> (trace (session e inps (new_session d fs)) = pre @ Call (GetConversationalAnswer q' h') out' # post
      \<longrightarrow> has_add pre)"
proof -
  have "gate_inv (session e inps (new_session d fs))"
    by (rule gate_inv_session) (rule gate_inv_new_session)
  then have "trace (session e inps (new_session d fs)) = pre @ Call (GetConversationalAnswer q' h') out' # post
      \<longrightarrow> has_add pre"
    unfolding gate_inv_def by blast
  moreover have "\<not> file_processed (new_session d fs)"
    by (simp add: new_session_def)
  moreover have "file_processed (process_document e up s) \<and> \<not> file_processed s
      \<longrightarrow> has_add (emitted s (process_document e up s))"
    using file_processed_process_document[of e up s] by blast
  moreover have "prompt \<noteq> [] \<and> \<not> file_processed s
      \<longrightarrow> chat_handler e (Some prompt) s = log (Ui (StWarning warning_message)) s"
    by (simp add: chat_handler_gated)
  moreover have "Call (GetConversationalAnswer q h) out \<in> set (emitted s (chat_handler e submitted s))
      \<longrightarrow> file_processed s"
    using answer_call_gated[of q h out s e submitted] by blast
  ultimately show ?thesis by blast
qed


theorem chat_gate_witness:
  "freedonia \<noteq> [] \<and> \<not> file_processed (new_session empty_store Map.empty)
   \<and> chat_handler (stub_env (Inr three_chunks) (Inr example_city) (Inr ())) (Some freedonia)
        (new_session empty_store Map.empty)
      = log (Ui (StWarning warning_message)) (new_session empty_store Map.empty)
   \<and> trace (session (stub_env (Inr three_chunks) (Inr example_city) (Inr ())) upload_and_ask
        (new_session empty_store Map.empty))
      = [Call (DocDelete page_gte_0) None, Call (ChatDelete page_gte_0) None,
         Call (ExtractText ''/tmp/tmpab12.txt'') None,
         Call (DocAdd [''alpha'', ''beta'', ''gamma'']
                [[(''page'', IntV 1)], [(''page'', IntV 2)], [(''page'', IntV 3)]]
                [''notes.txt_chunk_0'', ''notes.txt_chunk_1'', ''notes.txt_chunk_2'']) None,
         Ui (StSuccess (success_message ''notes.txt'' 3)),
         Ui (StHeader ''Chat with: notes.txt''),
         Ui (StHeader ''Chat with: notes.txt''),
         Ui (StChatMessage ''user'' freedonia)]
        @ Call (GetConversationalAnswer freedonia []) None
        # [Call (StoreInLongTermMemory freedonia ''Example City'') None,
           Ui (StChatMessage ''model'' ''Example City''),
           Ui (StCaption ''Sources: Page 2'')]
   \<and> has_add [Call (DocDelete page_gte_0) None, Call (ChatDelete page_gte_0) None,
         Call (ExtractText ''/tmp/tmpab12.txt'') None,
         Call (DocAdd [''alpha'', ''beta'', ''gamma'']
                [[(''page'', IntV 1)], [(''page'', IntV 2)], [(''page'', IntV 3)]]
                [''notes.txt_chunk_0'', ''notes.txt_chunk_1'', ''notes.txt_chunk_2'']) None,
         Ui (StSuccess (success_message ''notes.txt'' 3)),
         Ui (StHeader ''Chat with: notes.txt''),
         Ui (StHeader ''Chat with: notes.txt''),
         Ui (StChatMessage ''user'' freedonia)]"
proof -
  let ?e = "stub_env (Inr three_chunks) (Inr example_city) (Inr ())"
  let ?new = "new_session empty_store Map.empty"
  let ?pre = "[Call (DocDelete page_gte_0) None, Call (ChatDelete page_gte_0) None,
         Call (ExtractText ''/tmp/tmpab12.txt'') None,
         Call (DocAdd [''alpha'', ''beta'', ''gamma'']
                [[(''page'', IntV 1)], [(''page'', IntV 2)], [(''page'', IntV 3)]]
                [''notes.txt_chunk_0'', ''notes.txt_chunk_1'', ''notes.txt_chunk_2'']) None,
         Ui (StSuccess (success_message ''notes.txt'' 3)),
         Ui (StHeader ''Chat with: notes.txt''),
         Ui (StHeader ''Chat with: notes.txt''),
         Ui (StChatMessage ''user'' freedonia)]"
  let ?post = "[Call (StoreInLongTermMemory freedonia ''Example City'') None,
           Ui (StChatMessage ''model'' ''Example City''),
           Ui (StCaption ''Sources: Page 2'')]"
  have h1: "freedonia \<noteq> []" by (simp add: freedonia_def)
  have h2: "\<not> file_processed ?new" by (simp add: new_session_def)
  have h3: "trace (session ?e upload_and_ask ?new)
              = ?pre @ Call (GetConversationalAnswer freedonia []) None # ?post"
    by (rule session_upload_and_ask_trace)
  note gate = chat_gate[where s="?new" and e="?e" and prompt=freedonia and d=empty_store
      and fs=Map.empty and inps=upload_and_ask and pre="?pre" and q'=freedonia and h'="[]"
      and out'=None and post="?post"]
  have w: "chat_handler ?e (Some freedonia) ?new = log (Ui (StWarning warning_message)) ?new"
    using gate h1 h2 by blast
  have a: "has_add ?pre"
    using gate h3 by blast
  show ?thesis
    by (rule conjI[OF h1 conjI[OF h2 conjI[OF w conjI[OF h3 a]]]])
qed

subsection \<open>What a second ingestion leaves in the collections\<close>

text \<open>
  C1, as amended: with collections that behave as the spec's sections 4.2 and 7 say, after
  every run of the Process Document handler in which both delete calls return, neither
  the document collection nor the chat-memory collection contains an earlier entry whose
  page metadata is an integer >= 0: the chat-memory collection contains no entry with such
  a page at all, and an entry with such a page in the document collection is one that
  this run added from the chunks extracted. The claim as stated fails in two ways, shown
  by theorem \<open>stale_entries_survive\<close> below: a delete may raise, and the filter does not
  match an entry whose page is missing or negative.
\<close>

theorem reingestion_clears_paged_entries:
  assumes "fst (doc_delete (with_collections f e) page_gte_0 (doc_collection (db s))) = Inr ()"
    and "fst (chat_delete (with_collections f e) page_gte_0 (chat_collection (db s))) = Inr ()"
  shows "(\<forall>x \<in> set (chat_collection (db (process_document (with_collections f e) up s))).
            \<not> matches page_gte_0 (metadata x))
         \<and> (\<forall>x \<in> set (doc_collection (db (process_document (with_collections f e) up s))).
              matches page_gte_0 (metadata x) \<longrightarrow>
                (\<exists>chunks. extract_text e (tmp_path (with_collections f e) up s)
                             ((files s)(tmp_path (with_collections f e) up s \<mapsto> getvalue up)) = Inr chunks
                   \<and> x \<in> set (make_entries (documents_to_add chunks) (metadatas_to_add chunks)
                                  (ids_to_add (name up) chunks))))
         \<and> (\<forall>md. matches page_gte_0 md \<longleftrightarrow> (\<exists>n. map_of md ''page'' = Some (IntV n) \<and> 0 \<le> n))"
proof -
  let ?s' = "process_document (with_collections f e) up s"
  have f: "doc_delete_fault f = None" "chat_delete_fault f = None"
    using assms by (simp_all add: collection_delete_returns)
  note after = collections_process_document[OF f, of e up s]
  have chat: "\<forall>x \<in> set (chat_collection (db ?s')). \<not> matches page_gte_0 (metadata x)"
    using after survivors_unmatched by auto
  have doc: "\<forall>x \<in> set (doc_collection (db ?s')). matches page_gte_0 (metadata x) \<longrightarrow>
                (\<exists>chunks. extract_text e (tmp_path (with_collections f e) up s)
                             ((files s)(tmp_path (with_collections f e) up s \<mapsto> getvalue up)) = Inr chunks
                   \<and> x \<in> set (make_entries (documents_to_add chunks) (metadatas_to_add chunks)
                                  (ids_to_add (name up) chunks)))"
  proof (intro ballI impI)
    fix x
    assume x: "x \<in> set (doc_collection (db ?s'))" and m: "matches page_gte_0 (metadata x)"
    from after obtain added where
      d: "doc_collection (db ?s') = survivors (doc_collection (db s)) @ added"
      and a: "added = [] \<or>
            (\<exists>chunks k. extract_text e (tmp_path (with_collections f e) up s)
                         ((files s)(tmp_path (with_collections f e) up s \<mapsto> getvalue up)) = Inr chunks
               \<and> added = take k (make_entries (documents_to_add chunks) (metadatas_to_add chunks)
                            (ids_to_add (name up) chunks)))"
      by blast
    from x d m survivors_unmatched have "x \<in> set added" by auto
    with a show "\<exists>chunks. extract_text e (tmp_path (with_collections f e) up s)
                             ((files s)(tmp_path (with_collections f e) up s \<mapsto> getvalue up)) = Inr chunks
                   \<and> x \<in> set (make_entries (documents_to_add chunks) (metadatas_to_add chunks)
                                  (ids_to_add (name up) chunks))"
      by (auto dest: in_set_takeD)
  qed
  from chat doc matches_page_gte_0 show ?thesis by blast
qed

theorem reingestion_clears_paged_entries_witness:
  "fst (doc_delete (with_collections no_faults (stub_backend (Inr three_chunks) (Inr example_city) (Inr ())))
          page_gte_0 (doc_collection (db answered))) = Inr ()
   \<and> fst (chat_delete (with_collections no_faults (stub_backend (Inr three_chunks) (Inr example_city) (Inr ())))
          page_gte_0 (chat_collection (db answered))) = Inr ()
   \<and> paged_memory \<in> set (chat_collection (db answered))
   \<and> paged_memory \<notin> set (chat_collection (db (process_document
        (with_collections no_faults (stub_backend (Inr three_chunks) (Inr example_city) (Inr ())))
        notes_txt answered)))
   \<and> old_chunk \<in> set (doc_collection (db answered))
   \<and> old_chunk \<notin> set (doc_collection (db (process_document
        (with_collections no_faults (stub_backend (Inr three_chunks) (Inr example_city) (Inr ())))
        notes_txt answered)))"
proof -
  let ?b = "stub_backend (Inr three_chunks) (Inr example_city) (Inr ())"
  let ?e = "with_collections no_faults ?b"
  have h1: "fst (doc_delete ?e page_gte_0 (doc_collection (db answered))) = Inr ()"
    by (simp add: collection_delete_returns no_faults_def)
  have h2: "fst (chat_delete ?e page_gte_0 (chat_collection (db answered))) = Inr ()"
    by (simp add: collection_delete_returns no_faults_def)
  note cleared = reingestion_clears_paged_entries[OF h1 h2, of notes_txt]
  have m1: "matches page_gte_0 (metadata paged_memory)"
    by (simp add: paged_memory_def page_gte_0_def)
  have m2: "matches page_gte_0 (metadata old_chunk)"
    by (simp add: old_chunk_def page_gte_0_def)
  have p1: "paged_memory \<in> set (chat_collection (db answered))"
    by (simp add: answered_def)
  have p2: "old_chunk \<in> set (doc_collection (db answered))"
    by (simp add: answered_def)
  have n1: "paged_memory \<notin> set (chat_collection (db (process_document ?e notes_txt answered)))"
    using cleared m1 by blast
  have x: "extract_text ?b p fs = Inr three_chunks" for p fs
    by (simp add: stub_backend_def)
  have fresh: "old_chunk \<notin> set (make_entries (documents_to_add three_chunks)
      (metadatas_to_add three_chunks) (ids_to_add (name notes_txt) three_chunks))"
    by (simp add: old_chunk_def make_entries_def documents_to_add_def metadatas_to_add_def
        ids_to_add_def three_chunks_def notes_txt_def str_nat.simps digit_char_def)
  have n2: "old_chunk \<notin> set (doc_collection (db (process_document ?e notes_txt answered)))"
  proof
    assume "old_chunk \<in> set (doc_collection (db (process_document ?e notes_txt answered)))"
    with cleared m2 obtain chunks where
      "extract_text ?b (tmp_path ?e notes_txt answered)
         ((files answered)(tmp_path ?e notes_txt answered \<mapsto> getvalue notes_txt)) = Inr chunks"
      and "old_chunk \<in> set (make_entries (documents_to_add chunks) (metadatas_to_add chunks)
              (ids_to_add (name notes_txt) chunks))"
      by blast
    with x fresh show False by simp
  qed
  from h1 h2 p1 n1 p2 n2 show ?thesis by (intro conjI)
qed

text \<open>
  The counterexample to C1 as stated. In a session that processes \<^verbatim>\<open>notes.txt\<close> and asks one
  question, the memory writer of the test double stores an entry without page metadata,
  and processing a document again leaves that entry in the chat-memory collection; a
  delete that returns also leaves an entry whose page is the sentinel -1. And when the
  store of the chat collection is down, the run ends with the memory entry of page 0 still
  in the chat-memory collection.
\<close>

theorem stale_entries_survive:
  "chat_collection (db (session (stub_env (Inr three_chunks) (Inr example_city) (Inr ())) upload_and_ask
        (new_session empty_store Map.empty)))
     = [\<lparr>entry_id = ''memory'', document = freedonia @ '' / Example City'', metadata = []\<rparr>]
   \<and> chat_collection (db (process_document (stub_env (Inr three_chunks) (Inr example_city) (Inr ())) notes_txt
        (session (stub_env (Inr three_chunks) (Inr example_city) (Inr ())) upload_and_ask
           (new_session empty_store Map.empty))))
     = [\<lparr>entry_id = ''memory'', document = freedonia @ '' / Example City'', metadata = []\<rparr>]
   \<and> collection_delete None page_gte_0
        [\<lparr>entry_id = ''memory'', document = ''question / reply'', metadata = [(''page'', IntV (- 1))]\<rparr>]
     = (Inr (), [\<lparr>entry_id = ''memory'', document = ''question / reply'', metadata = [(''page'', IntV (- 1))]\<rparr>])
   \<and> chat_collection (db answered) = [paged_memory]
   \<and> chat_collection (db (process_document
        (with_collections chat_store_down (stub_backend (Inr three_chunks) (Inr example_city) (Inr ())))
        notes_txt answered))
     = [paged_memory]"
proof -
  let ?e = "stub_env (Inr three_chunks) (Inr example_city) (Inr ())"
  let ?asked = "session ?e upload_and_ask (new_session empty_store Map.empty)"
  have a: "chat_collection (db ?asked)
     = [\<lparr>entry_id = ''memory'', document = freedonia @ '' / Example City'', metadata = []\<rparr>]"
    by (simp add: session_upload_and_ask_db)
  have "chat_collection (db (process_document ?e notes_txt ?asked)) = survivors (chat_collection (db ?asked))"
    unfolding stub_env_def by (rule chat_collection_process_document)
  then have b: "chat_collection (db (process_document ?e notes_txt ?asked))
     = [\<lparr>entry_id = ''memory'', document = freedonia @ '' / Example City'', metadata = []\<rparr>]"
    by (simp only: a survivors_memory)
  have c: "collection_delete None page_gte_0
        [\<lparr>entry_id = ''memory'', document = ''question / reply'', metadata = [(''page'', IntV (- 1))]\<rparr>]
     = (Inr (), [\<lparr>entry_id = ''memory'', document = ''question / reply'', metadata = [(''page'', IntV (- 1))]\<rparr>])"
    by (simp add: collection_delete_def page_gte_0_def)
  have d: "chat_collection (db answered) = [paged_memory]"
    by (simp add: answered_def)
  have "chat_collection (db (process_document
        (with_collections chat_store_down (stub_backend (Inr three_chunks) (Inr example_city) (Inr ())))
        notes_txt answered)) = chat_collection (db answered)"
    by (rule chat_collection_store_down[where m="''StorageError''"]) (simp_all add: chat_store_down_def)
  with d have e: "chat_collection (db (process_document
        (with_collections chat_store_down (stub_backend (Inr three_chunks) (Inr example_city) (Inr ())))
        notes_txt answered)) = [paged_memory]"
    by simp
  from a b c d e show ?thesis by (intro conjI)
qed

end
